theory Spec2Isabelle
  imports Complex_Main "HOL-Library.AList" "HOL-Library.Multiset" "HOL-Library.Log_Nat"
begin

text \<open>
  A shallow embedding of the component runtime of the theme (\<open>vessel-theme-loader.js\<close>):
  the overflow list with its reflow, the \<open>Component\<close> base class with its ref scan, and
  the registry of delegated event listeners. Definitions come first, section by section as
  in the source; the properties follow.
\<close>

section \<open>The overflow list (\<open>OverflowList\<close> in \<open>vessel-theme-loader.js\<close>)\<close>

text \<open>
  An \<open>overflow-list\<close> element owns a row of light-DOM children. Each child carries a
  \<open>slot\<close> attribute: the empty name assigns it to the default slot (the visible row),
  \<open>overflow\<close> to the overflow slot. Children are identified by a number; the list
  \<open>childSlots\<close> keeps them in tree order, which is the order
  \<open>assignedElements()\<close> reports.

  What the browser measures during one reflow is not computed by the program, so it is an
  input of the model: \<open>topAligned\<close> says whether an element's top edge is at or above the
  list's top edge in the first measurement, \<open>topAlignedMoreFirst\<close> the same once the
  "more" slot (and the forced element, if any) has been ordered first. Pixel sizes are the
  integers the program keeps after \<open>Math.round\<close>.
\<close>

type_synonym elem = nat

record layout =
  firstElementHeight :: "nat option"
  rootWidth :: int
  rootHeight :: int
  topAligned :: "elem \<Rightarrow> bool"
  topAlignedMoreFirst :: "elem \<Rightarrow> bool"
  clientWidth :: "elem \<Rightarrow> nat"

record overflow_list =
  childSlots :: "(elem \<times> string) list"
  minimumItemsAttr :: "string option"
  minimumReachedAttr :: bool
  disabledAttr :: "string option"
  listHeight :: "nat option"
  listOverflowHidden :: bool
  counterReset :: "nat option"
  overflowCountVar :: "nat option"
  moreHidden :: bool
  moreHeightAuto :: bool
  placeholderHidden :: bool
  placeholderWidth :: "nat option"
  placeholderDisplayNone :: bool
  lastDimensions :: "int option \<times> int option"
  resizeObserving :: bool
  resizeInitialized :: bool
  mutationObserving :: bool
  scheduled :: bool
  pending :: nat
  dispatched :: "bool list"

definition defaultSlotName :: string where
  "defaultSlotName = []"

definition overflowSlotName :: string where
  "overflowSlotName = ''overflow''"

definition assignedElements :: "string \<Rightarrow> overflow_list \<Rightarrow> elem list" where
  "assignedElements name s = map fst (filter (\<lambda>c. snd c = name) (childSlots s))"

subsection \<open>The \<open>minimum-items\<close> attribute\<close>

text \<open>
  \<open>parseInt(value, 10)\<close>: leading white space is skipped, one sign is read, then the
  longest run of decimal digits; \<open>None\<close> stands for \<open>NaN\<close> (no digit). A character
  is a UTF-16 code unit below 256; the white space of ECMAScript in that range is the
  space, the no-break space and the five control characters below.
\<close>

definition isWhiteSpace :: "char \<Rightarrow> bool" where
  "isWhiteSpace c = (c \<in> set [CHR '' '', CHR 0x09, CHR 0x0A, CHR 0x0B, CHR 0x0C, CHR 0x0D, CHR 0xA0])"

definition isDigit :: "char \<Rightarrow> bool" where
  "isDigit c = (c \<in> set ''0123456789'')"

definition digitValue :: "char \<Rightarrow> int" where
  "digitValue c = of_char c - 48"

definition digitsValue :: "string \<Rightarrow> int" where
  "digitsValue ds = foldl (\<lambda>a c. 10 * a + digitValue c) 0 ds"

definition parseInt :: "string \<Rightarrow> int option" where
  "parseInt str =
    (let s = dropWhile isWhiteSpace str;
         negative = (case s of [] \<Rightarrow> False | c # _ \<Rightarrow> c = CHR ''-'');
         signed = (case s of [] \<Rightarrow> False | c # _ \<Rightarrow> c = CHR ''-'' \<or> c = CHR ''+'');
         ds = takeWhile isDigit (if signed then tl s else s)
     in if ds = [] then None
        else Some (if negative then - digitsValue ds else digitsValue ds))"

text \<open>
  The getter \<open>minimumItems\<close>: \<open>None\<close> is \<open>null\<close> (attribute absent or empty),
  \<open>Some None\<close> is \<open>NaN\<close>.
\<close>

definition minimumItems :: "overflow_list \<Rightarrow> int option option" where
  "minimumItems s =
    (case minimumItemsAttr s of
       None \<Rightarrow> None
     | Some v \<Rightarrow> if v = [] then None else Some (parseInt v))"

definition updateMinimumReached :: "elem list \<Rightarrow> overflow_list \<Rightarrow> overflow_list" where
  "updateMinimumReached visible s =
    (case minimumItems s of
       None \<Rightarrow> s
     | Some m \<Rightarrow>
         (let minimumReached = (case m of None \<Rightarrow> False | Some k \<Rightarrow> int (length visible) < k)
          in s\<lparr>minimumReachedAttr := minimumReached,
                dispatched := dispatched s @ [minimumReached]\<rparr>))"

subsection \<open>Reset and reflow\<close>

definition moveItemsToDefaultSlot :: "overflow_list \<Rightarrow> overflow_list" where
  "moveItemsToDefaultSlot s =
    s\<lparr>childSlots :=
        map (\<lambda>c. if snd c = overflowSlotName then (fst c, defaultSlotName) else c) (childSlots s)\<rparr>"

text \<open>
  The variable \<open>elements\<close> of \<open>#reflowItems\<close>: what the default slot reports once
  every overflowing child has been moved back.
\<close>

definition defaultSlotElements :: "overflow_list \<Rightarrow> elem list" where
  "defaultSlotElements s = assignedElements defaultSlotName (moveItemsToDefaultSlot s)"

definition disconnectObservers :: "overflow_list \<Rightarrow> overflow_list" where
  "disconnectObservers s =
    s\<lparr>resizeObserving := False, resizeInitialized := False, mutationObserving := False\<rparr>"

definition reset :: "overflow_list \<Rightarrow> overflow_list" where
  "reset s =
    (moveItemsToDefaultSlot (disconnectObservers s))\<lparr>listHeight := None, overflowCountVar := Some 0\<rparr>"

text \<open>
  The value of the variable \<open>visibleElements\<close> when the slots are assigned: the first
  measurement, replaced by the second one when not every element fits or an element is
  forced; a forced element that is still in the second measurement is spliced out and
  pushed at the end.
\<close>

definition visibleElements :: "elem option \<Rightarrow> layout \<Rightarrow> elem list \<Rightarrow> elem list" where
  "visibleElements lastVisibleElement L elements =
    (let visible = filter (topAligned L) elements
     in if length visible \<noteq> length elements \<or> lastVisibleElement \<noteq> None then
          (let remeasured = filter (topAlignedMoreFirst L) elements
           in case lastVisibleElement of
                None \<Rightarrow> remeasured
              | Some forced \<Rightarrow>
                  if forced \<in> set remeasured then remove1 forced remeasured @ [forced]
                  else remeasured)
        else visible)"

definition overflowingElements :: "elem option \<Rightarrow> layout \<Rightarrow> elem list \<Rightarrow> elem list" where
  "overflowingElements lastVisibleElement L elements =
    filter (\<lambda>e. e \<notin> set (visibleElements lastVisibleElement L elements)) elements"

definition reflowItems :: "elem option \<Rightarrow> layout \<Rightarrow> overflow_list \<Rightarrow> overflow_list" where
  "reflowItems lastVisibleElement L s0 =
    (let s1 = disconnectObservers s0;
         s2 = s1\<lparr>listHeight := (case firstElementHeight L of
                                    None \<Rightarrow> listHeight s1
                                  | Some h \<Rightarrow> if h = 0 then listHeight s1 else Some h),
                 listOverflowHidden := True\<rparr>;
         s3 = moveItemsToDefaultSlot s2;
         elements = assignedElements defaultSlotName s3;
         s4 = s3\<lparr>moreHidden := True, placeholderHidden := True,
                 lastDimensions := (Some (rootWidth L), Some (rootHeight L))\<rparr>;
         firstPass = filter (topAligned L) elements;
         s5 = (if length firstPass \<noteq> length elements \<or> lastVisibleElement \<noteq> None
               then s4\<lparr>moreHidden := False, moreHeightAuto := True\<rparr> else s4);
         visible = visibleElements lastVisibleElement L elements;
         overflowing = overflowingElements lastVisibleElement L elements;
         hasOverflow = (overflowing \<noteq> []);
         s6 = s5\<lparr>childSlots :=
                   map (\<lambda>c. if snd c = defaultSlotName
                             then (fst c, if fst c \<in> set overflowing then overflowSlotName
                                          else defaultSlotName)
                             else c) (childSlots s5),
                 moreHidden := \<not> hasOverflow\<rparr>;
         s7 = (if hasOverflow
               then s6\<lparr>placeholderWidth := Some (clientWidth L (hd overflowing)),
                       placeholderHidden := False\<rparr>
               else s6);
         s8 = s7\<lparr>counterReset := Some (length overflowing),
                 overflowCountVar := Some (length overflowing),
                 listOverflowHidden := False\<rparr>;
         s9 = (if hasOverflow then updateMinimumReached visible s8 else s8)
     in s9\<lparr>resizeObserving := True, mutationObserving := True\<rparr>)"

subsection \<open>Observers, scheduling and \<open>showAll\<close>\<close>

text \<open>
  \<open>#handleChange\<close> serves both observers. A resize delivery is a list of entries with
  the rounded content sizes; the loop keeps the sizes of the last entry. A mutation delivery
  holds no resize entry, so the loop breaks at once and \<open>isResize\<close> stays false.
  \<open>pending\<close> counts the callbacks handed to \<open>schedule\<close> that have not run yet.
\<close>

datatype change = Resized "(int \<times> int) list" | Mutated

definition handleChange :: "change \<Rightarrow> overflow_list \<Rightarrow> overflow_list" where
  "handleChange ev s =
    (if scheduled s then s
     else
       (case (case ev of Resized entries \<Rightarrow> entries | Mutated \<Rightarrow> []) of
          [] \<Rightarrow> s\<lparr>scheduled := True, pending := pending s + 1\<rparr>
        | e # es \<Rightarrow>
            (let width = fst (last (e # es)); height = snd (last (e # es))
             in if width = 0 \<or> height = 0
                   \<or> (fst (lastDimensions s) = Some width \<and> snd (lastDimensions s) = Some height)
                then s
                else s\<lparr>lastDimensions := (Some width, Some height),
                       scheduled := True, pending := pending s + 1\<rparr>)))"

text \<open>
  \<open>ResizeNotifier\<close> swallows the delivery that follows \<open>observe\<close>; its
  \<open>disconnect\<close> clears the flag again (see \<open>disconnectObservers\<close>).
\<close>

definition resizeNotifier :: "(int \<times> int) list \<Rightarrow> overflow_list \<Rightarrow> overflow_list" where
  "resizeNotifier entries s =
    (if resizeInitialized s then handleChange (Resized entries) s
     else s\<lparr>resizeInitialized := True\<rparr>)"

text \<open>The callback \<open>#handleChange\<close> hands to \<open>schedule\<close>.\<close>

definition scheduledReflow :: "layout \<Rightarrow> overflow_list \<Rightarrow> overflow_list" where
  "scheduledReflow L s = (reflowItems None L s)\<lparr>scheduled := False\<rparr>"

definition attributeChangedCallback ::
  "string \<Rightarrow> string option \<Rightarrow> layout \<Rightarrow> overflow_list \<Rightarrow> overflow_list" where
  "attributeChangedCallback name newValue L s =
    (if name = ''disabled''
     then (if newValue = Some ''true'' then reset s else reflowItems None L s)
     else s)"

text \<open>
  \<open>showAll\<close> styles the placeholder and sets \<open>disabled="true"\<close>; the browser then
  runs \<open>attributeChangedCallback\<close> with that value, which is \<open>#reset\<close>.
\<close>

definition showAll :: "overflow_list \<Rightarrow> overflow_list" where
  "showAll s =
    reset (s\<lparr>placeholderWidth := Some 0, placeholderDisplayNone := True,
              disabledAttr := Some ''true''\<rparr>)"

text \<open>
  What can happen to a connected, initialised list. The browser delivers observations only
  to observers that are observing, and runs a scheduled callback only if one is pending.
\<close>

datatype stimulus =
    ResizeObserved "(int \<times> int) list"
  | ChildListMutated
  | ScheduledCallback layout
  | ReflowRequested elem layout
  | ShowAll

fun step :: "overflow_list \<Rightarrow> stimulus \<Rightarrow> overflow_list" where
  "step s (ResizeObserved entries) = (if resizeObserving s then resizeNotifier entries s else s)"
| "step s ChildListMutated = (if mutationObserving s then handleChange Mutated s else s)"
| "step s (ScheduledCallback L) =
     (if pending s = 0 then s else (scheduledReflow L s)\<lparr>pending := pending s - 1\<rparr>)"
| "step s (ReflowRequested e L) = reflowItems (Some e) L s"
| "step s ShowAll = showAll s"

definition run :: "overflow_list \<Rightarrow> stimulus list \<Rightarrow> overflow_list" where
  "run s steps = foldl step s steps"

text \<open>A list as it is before \<open>#initialize\<close>, and \<open>#initialize\<close> once the parts are found.\<close>

definition created :: "(elem \<times> string) list \<Rightarrow> string option \<Rightarrow> overflow_list" where
  "created cs minimum =
    \<lparr>childSlots = cs, minimumItemsAttr = minimum, minimumReachedAttr = False,
     disabledAttr = None, listHeight = None, listOverflowHidden = False,
     counterReset = None, overflowCountVar = None, moreHidden = False,
     moreHeightAuto = False, placeholderHidden = False, placeholderWidth = None,
     placeholderDisplayNone = False, lastDimensions = (None, None),
     resizeObserving = False, resizeInitialized = False, mutationObserving = False,
     scheduled = False, pending = 0, dispatched = []\<rparr>"

definition initialize :: "layout \<Rightarrow> overflow_list \<Rightarrow> overflow_list" where
  "initialize L s = reflowItems None L s"

subsection \<open>Example lists and layouts\<close>

definition threeItems :: overflow_list where
  "threeItems = created [(1, []), (2, []), (3, [])] (Some ''2'')"

definition roomForAll :: layout where
  "roomForAll =
    \<lparr>firstElementHeight = Some 40, rootWidth = 600, rootHeight = 40,
     topAligned = (\<lambda>e. True), topAlignedMoreFirst = (\<lambda>e. True), clientWidth = (\<lambda>e. 80)\<rparr>"

definition roomForOne :: layout where
  "roomForOne =
    \<lparr>firstElementHeight = Some 40, rootWidth = 200, rootHeight = 40,
     topAligned = (\<lambda>e. e \<le> 2), topAlignedMoreFirst = (\<lambda>e. e \<le> 1), clientWidth = (\<lambda>e. 80)\<rparr>"

definition roomForTwo :: layout where
  "roomForTwo =
    \<lparr>firstElementHeight = Some 40, rootWidth = 300, rootHeight = 40,
     topAligned = (\<lambda>e. e \<le> 2), topAlignedMoreFirst = (\<lambda>e. e \<le> 2), clientWidth = (\<lambda>e. 80)\<rparr>"


text \<open>
  Four items on a row that holds the "more" slot and three items.
\<close>

definition fourItems :: overflow_list where
  "fourItems = created [(1, []), (2, []), (3, []), (4, [])] None"

definition roomForThree :: layout where
  "roomForThree =
    \<lparr>firstElementHeight = Some 40, rootWidth = 400, rootHeight = 40,
     topAligned = (\<lambda>e. e \<le> 3), topAlignedMoreFirst = (\<lambda>e. e \<le> 3), clientWidth = (\<lambda>e. 80)\<rparr>"

text \<open>
  The stimuli the list receives without anyone asking for a reflow: observer deliveries
  and the scheduled callback.
\<close>

fun unrequested :: "stimulus \<Rightarrow> bool" where
  "unrequested (ResizeObserved _) = True"
| "unrequested ChildListMutated = True"
| "unrequested (ScheduledCallback _) = True"
| "unrequested (ReflowRequested _ _) = False"
| "unrequested ShowAll = False"

section \<open>The DOM as the components see it\<close>

text \<open>
  An element has an identity (\<open>nid\<close>; two elements are the same object iff their
  identities are equal), a kind, a tag name, attributes, an optional open shadow root and
  children. The kind records what \<open>instanceof\<close> answers: an instance of \<open>Component\<close>,
  another \<open>HTMLElement\<close>, or an element that is not an \<open>HTMLElement\<close> (SVG, MathML).
  Only elements are kept: neither \<open>querySelectorAll\<close> nor the walk to the ancestors looks
  at text nodes.
\<close>

datatype elkind = ComponentInstance | HtmlElement | OtherElement

datatype node =
  Node (nid: nat) (kind: elkind) (tagName: string) (attributes: "(string \<times> string) list")
       (shadowRoot: "node list option") (childNodes: "node list")

text \<open>
  Parent pointers are kept as the chain of ancestors, nearest first. A link of the chain is
  an element or a shadow root; the link after a shadow root is its host. A \<open>place\<close> is a
  node with everything above it, the empty chain standing for \<open>null\<close>; a \<open>located\<close>
  element is an element with the chain above it.
\<close>

datatype link = Elem node | ShadowRoot

type_synonym place = "link list"

type_synonym located = "node \<times> place"

definition getAttribute :: "node \<Rightarrow> string \<Rightarrow> string option" where
  "getAttribute n name = map_of (attributes n) name"

definition hasAttribute :: "node \<Rightarrow> string \<Rightarrow> bool" where
  "hasAttribute n name = (getAttribute n name \<noteq> None)"

subsection \<open>Strings\<close>

text \<open>
  A string is a list of UTF-16 code units below 256. \<open>toLowerCase\<close> maps the capital
  letters of that range to their small letters: \<open>A\<close> to \<open>Z\<close>, and the accented capitals
  from U+00C0 to U+00DE except the multiplication sign U+00D7.
\<close>

definition toLowerCase :: "string \<Rightarrow> string" where
  "toLowerCase str =
    map (\<lambda>c. if (65 \<le> (of_char c :: nat) \<and> (of_char c :: nat) \<le> 90)
                 \<or> (192 \<le> (of_char c :: nat) \<and> (of_char c :: nat) \<le> 222 \<and> (of_char c :: nat) \<noteq> 215)
              then char_of (of_char c + (32 :: nat)) else c) str"

definition endsWith :: "string \<Rightarrow> string \<Rightarrow> bool" where
  "endsWith str suffix =
    (length suffix \<le> length str \<and> drop (length str - length suffix) str = suffix)"

definition startsWith :: "string \<Rightarrow> string \<Rightarrow> bool" where
  "startsWith str prefix = (take (length prefix) str = prefix)"

definition isDigits :: "string \<Rightarrow> bool" where
  "isDigits s = (s \<noteq> [] \<and> list_all isDigit s)"

subsection \<open>Ancestors and the closest component\<close>

text \<open>
  \<open>getAncestor\<close> returns the parent node, or the host when the node is a shadow root:
  in both cases the rest of the chain.
\<close>

fun getAncestor :: "place \<Rightarrow> place" where
  "getAncestor [] = []"
| "getAncestor (n # up) = up"

fun getClosestComponent :: "place \<Rightarrow> place" where
  "getClosestComponent [] = []"
| "getClosestComponent (Elem n # up) =
     (if kind n = ComponentInstance then Elem n # up
      else if kind n \<noteq> OtherElement \<and> endsWith (toLowerCase (tagName n)) ''-component''
      then Elem n # up
      else getClosestComponent up)"
| "getClosestComponent (ShadowRoot # up) = getClosestComponent up"

subsection \<open>Tree order\<close>

text \<open>
  \<open>subtree up n\<close> lists \<open>n\<close> and its descendants in tree order, each with its chain;
  shadow trees are separate trees and are not entered, as in \<open>querySelectorAll\<close>.
\<close>

fun subtree :: "place \<Rightarrow> node \<Rightarrow> located list"
  and subtrees :: "place \<Rightarrow> node list \<Rightarrow> located list" where
  "subtree up (Node i k t a s cs) =
     (Node i k t a s cs, up) # subtrees (Elem (Node i k t a s cs) # up) cs"
| "subtrees up [] = []"
| "subtrees up (n # ns) = subtree up n @ subtrees up ns"

text \<open>
  \<open>root.querySelectorAll(selector)\<close>: the descendants of the root that match, in tree
  order. The root is given by its place and its children.
\<close>

definition querySelectorAll :: "(node \<Rightarrow> bool) \<Rightarrow> place \<times> node list \<Rightarrow> located list" where
  "querySelectorAll matches scope =
    filter (\<lambda>e. matches (fst e)) (subtrees (fst scope) (snd scope))"

text \<open>
  The shadow-including descendants: as \<open>subtrees\<close>, but the shadow root of every element is
  entered too (before the element's children).
\<close>

fun shadowIncluding :: "place \<Rightarrow> node \<Rightarrow> located list"
  and shadowIncludingAll :: "place \<Rightarrow> node list \<Rightarrow> located list" where
  "shadowIncluding up (Node i k t a None cs) =
     (Node i k t a None cs, up) # shadowIncludingAll (Elem (Node i k t a None cs) # up) cs"
| "shadowIncluding up (Node i k t a (Some content) cs) =
     (Node i k t a (Some content) cs, up)
       # shadowIncludingAll (ShadowRoot # Elem (Node i k t a (Some content) cs) # up) content
       @ shadowIncludingAll (Elem (Node i k t a (Some content) cs) # up) cs"
| "shadowIncludingAll up [] = []"
| "shadowIncludingAll up (n # ns) = shadowIncluding up n @ shadowIncludingAll up ns"

section \<open>The \<open>Component\<close> base class\<close>

subsection \<open>The refs object\<close>

text \<open>
  A ref is an element, or the array of the elements that share a name ending in \<open>[]\<close>.
  The refs object starts as \<open>{}\<close>: no own property, and \<open>Object.prototype\<close> as prototype.
  Its own properties are kept in the order of their creation. \<open>Object.prototype\<close> has the
  accessor \<open>__proto__\<close>, so a write to that name creates no own property and installs the
  written object as prototype instead.
\<close>

datatype refval = Single node | Many "node list"

datatype prototype = ObjectPrototype | Installed refval

record refs_object =
  own :: "(string \<times> refval) list"
  proto :: prototype

definition emptyObject :: refs_object where
  "emptyObject = \<lparr>own = [], proto = ObjectPrototype\<rparr>"

text \<open>The string-keyed properties of \<open>Object.prototype\<close>, which every object inherits.\<close>

definition objectPrototypeKeys :: "string list" where
  "objectPrototypeKeys =
    [''constructor'', ''__defineGetter__'', ''__defineSetter__'', ''hasOwnProperty'',
     ''__lookupGetter__'', ''__lookupSetter__'', ''isPrototypeOf'', ''propertyIsEnumerable'',
     ''toString'', ''valueOf'', ''__proto__'', ''toLocaleString'']"

text \<open>
  What the refs object inherits from an installed prototype is known to the program only
  in part: a list has \<open>length\<close> and its indices, none of its other properties holds a
  list, and all of them can be shadowed by a write; what an element has depends on its
  interface. Where the answer is not determined the operations below return \<open>None\<close>.

  \<open>currentArray\<close> is \<^verbatim>\<open>Array.isArray(refs[path]) ? refs[path] : []\<close>.
\<close>

definition currentArray :: "refs_object \<Rightarrow> string \<Rightarrow> node list option" where
  "currentArray R path =
    (case map_of (own R) path of
       Some (Many xs) \<Rightarrow> Some xs
     | Some (Single x) \<Rightarrow> Some []
     | None \<Rightarrow>
         (case proto R of
            ObjectPrototype \<Rightarrow> Some []
          | Installed (Many xs) \<Rightarrow> Some (if path = ''__proto__'' then xs else [])
          | Installed (Single x) \<Rightarrow> if path = ''__proto__'' then Some [] else None))"

text \<open>\<^verbatim>\<open>refs[path] = v\<close>.\<close>

definition assign :: "refs_object \<Rightarrow> string \<Rightarrow> refval \<Rightarrow> refs_object option" where
  "assign R path v =
    (if map_of (own R) path \<noteq> None then Some (R\<lparr>own := AList.update path v (own R)\<rparr>)
     else if path = ''__proto__'' then Some (R\<lparr>proto := Installed v\<rparr>)
     else (case proto R of
             Installed (Single x) \<Rightarrow> None
           | _ \<Rightarrow> Some (R\<lparr>own := AList.update path v (own R)\<rparr>)))"

text \<open>
  \<open>name in refs\<close>. An array index is the decimal numeral of a number below the length,
  without a leading zero.
\<close>

definition isArrayIndex :: "string \<Rightarrow> nat \<Rightarrow> bool" where
  "isArrayIndex s n = (isDigits s \<and> (s = ''0'' \<or> take 1 s \<noteq> ''0'') \<and> digitsValue s < int n)"

definition hasProperty :: "refs_object \<Rightarrow> string \<Rightarrow> bool option" where
  "hasProperty R name =
    (if map_of (own R) name \<noteq> None \<or> name \<in> set objectPrototypeKeys then Some True
     else (case proto R of
             ObjectPrototype \<Rightarrow> Some False
           | Installed (Many xs) \<Rightarrow>
               if name = ''length'' \<or> isArrayIndex name (length xs) then Some True else None
           | Installed (Single x) \<Rightarrow> None))"

subsection \<open>The component and its ref scan\<close>

record component =
  element :: node
  parents :: place
  requiredRefs :: "string list option"
  refs :: refs_object
  idleCallbacks :: nat

datatype error = MissingRefError string string

text \<open>The message of a \<open>MissingRefError\<close>, built from the ref and the lowercased tag.\<close>

fun message :: "error \<Rightarrow> string" where
  "message (MissingRefError ref tag) =
     ''Required ref \"'' @ ref @ ''\" not found in component '' @ tag"

text \<open>
  How a call ends: it returns, it throws, or it reaches a read or write of the refs
  object that the program text does not determine (\<open>BeyondModel\<close>). Each carries the state
  at that point.
\<close>

datatype 'a outcome = Completed 'a | Threw error 'a | BeyondModel 'a

definition thisPlace :: "component \<Rightarrow> place" where
  "thisPlace c = Elem (element c) # parents c"

definition roots :: "component \<Rightarrow> (place \<times> node list) list" where
  "roots c =
    (case shadowRoot (element c) of
       None \<Rightarrow> [(thisPlace c, childNodes (element c))]
     | Some content \<Rightarrow>
         [(thisPlace c, childNodes (element c)), (ShadowRoot # thisPlace c, content)])"

definition isDescendant :: "component \<Rightarrow> located \<Rightarrow> bool" where
  "isDescendant c e =
    (case getClosestComponent (getAncestor (Elem (fst e) # snd e)) of
       Elem m # _ \<Rightarrow> nid m = nid (element c)
     | _ \<Rightarrow> False)"

text \<open>\<open>Set.add\<close>: an element already in the set is not added again.\<close>

definition setAdd :: "located \<Rightarrow> located list \<Rightarrow> located list" where
  "setAdd e acc = (if nid (fst e) \<in> set (map (\<lambda>x. nid (fst x)) acc) then acc else acc @ [e])"

text \<open>The set \<open>elements\<close> of \<open>#updateRefs\<close>, in insertion order.\<close>

definition refElements :: "component \<Rightarrow> located list" where
  "refElements c =
    foldl (\<lambda>acc root.
             foldl (\<lambda>acc e. if \<not> isDescendant c e then acc else setAdd e acc) acc
               (querySelectorAll (\<lambda>n. hasAttribute n ''ref'') root))
      [] (roots c)"

text \<open>The body of the loop over \<open>elements\<close>.\<close>

definition assignRef :: "refs_object \<Rightarrow> located \<Rightarrow> refs_object option" where
  "assignRef R e =
    (let refName = (case getAttribute (fst e) ''ref'' of None \<Rightarrow> [] | Some v \<Rightarrow> v);
         isArray = endsWith refName ''[]'';
         path = (if isArray then take (length refName - 2) refName else refName)
     in if isArray then
          (case currentArray R path of
             None \<Rightarrow> None
           | Some array \<Rightarrow> assign R path (Many (array @ [fst e])))
        else assign R path (Single (fst e)))"

definition collectRefs :: "located list \<Rightarrow> refs_object option" where
  "collectRefs es =
    foldl (\<lambda>R e. case R of None \<Rightarrow> None | Some r \<Rightarrow> assignRef r e) (Some emptyObject) es"

text \<open>
  The loop over \<open>requiredRefs\<close>: \<open>Some (Some ref)\<close> is the first required name that is not
  in the refs object, \<open>Some None\<close> says that every name is in it.
\<close>

fun missingRef :: "refs_object \<Rightarrow> string list \<Rightarrow> string option option" where
  "missingRef R [] = Some None"
| "missingRef R (ref # rest) =
     (case hasProperty R ref of
        None \<Rightarrow> None
      | Some present \<Rightarrow> if present then missingRef R rest else Some (Some ref))"

definition updateRefs :: "component \<Rightarrow> component outcome" where
  "updateRefs c =
    (case collectRefs (refElements c) of
       None \<Rightarrow> BeyondModel c
     | Some R \<Rightarrow>
         (case (case requiredRefs c of None \<Rightarrow> Some None | Some required \<Rightarrow> missingRef R required) of
            None \<Rightarrow> BeyondModel c
          | Some (Some ref) \<Rightarrow> Threw (MissingRefError ref (toLowerCase (tagName (element c)))) c
          | Some None \<Rightarrow> Completed (c\<lparr>refs := R\<rparr>)))"

subsection \<open>The registry of delegated event listeners\<close>

record listener_entry =
  eventName :: string
  attribute :: string
  capture :: bool

record page =
  initialized :: bool
  listeners :: "listener_entry list"

definition events :: "string list" where
  "events = [''click'', ''change'', ''select'', ''focus'', ''blur'', ''submit'', ''input'',
             ''keydown'', ''keyup'', ''toggle'']"

definition shouldBubble :: "string list" where
  "shouldBubble = [''focus'', ''blur'']"

definition expensiveEvents :: "string list" where
  "expensiveEvents = [''pointerenter'', ''pointerleave'']"

definition registerEventListeners :: "page \<Rightarrow> page" where
  "registerEventListeners p =
    (if initialized p then p
     else p\<lparr>initialized := True,
            listeners := listeners p @
              map (\<lambda>name. \<lparr>eventName = name, attribute = ''on:'' @ name, capture = True\<rparr>)
                (events @ expensiveEvents)\<rparr>)"

definition freshPage :: page where
  "freshPage = \<lparr>initialized = False, listeners = []\<rparr>"

subsection \<open>Connecting a component\<close>

text \<open>
  \<open>DeclarativeShadowElement.connectedCallback\<close>: an element without a shadow root looks
  for a direct child \<open>template\<close> with \<open>shadowrootmode="open"\<close> and attaches a shadow
  root holding a deep clone of the template's content. The content of a template is a
  document fragment of its own, so the clone is an input here: \<open>None\<close> when there is no
  such template.
\<close>

definition hydrate :: "node list option \<Rightarrow> node \<Rightarrow> node" where
  "hydrate templateClone n =
    (case shadowRoot n of
       Some _ \<Rightarrow> n
     | None \<Rightarrow>
         (case templateClone of
            None \<Rightarrow> n
          | Some content \<Rightarrow>
              Node (nid n) (kind n) (tagName n) (attributes n) (Some content) (childNodes n)))"

text \<open>
  \<open>Component.connectedCallback\<close>. A throw leaves the page and the component as they are
  at that point, so every outcome carries them. \<open>idleCallbacks\<close> counts the callbacks given
  to \<open>requestIdleCallback\<close>, which start the mutation observer.
\<close>

definition connectedCallback ::
  "node list option \<Rightarrow> page \<times> component \<Rightarrow> (page \<times> component) outcome" where
  "connectedCallback templateClone pc =
    (let c1 = (snd pc)\<lparr>element := hydrate templateClone (element (snd pc))\<rparr>;
         p1 = registerEventListeners (fst pc)
     in case updateRefs c1 of
          Threw e c2 \<Rightarrow> Threw e (p1, c2)
        | BeyondModel c2 \<Rightarrow> BeyondModel (p1, c2)
        | Completed c2 \<Rightarrow> Completed (p1, c2\<lparr>idleCallbacks := idleCallbacks c2 + 1\<rparr>))"

fun outcomeState :: "'a outcome \<Rightarrow> 'a" where
  "outcomeState (Completed s) = s"
| "outcomeState (Threw e s) = s"
| "outcomeState (BeyondModel s) = s"

text \<open>Components connecting one after the other, on one page.\<close>

definition connectAll :: "(node list option \<times> component) list \<Rightarrow> page \<Rightarrow> page" where
  "connectAll cs p = foldl (\<lambda>p x. fst (outcomeState (connectedCallback (fst x) (p, snd x)))) p cs"

subsection \<open>Reading the collected refs\<close>

definition refName :: "node \<Rightarrow> string" where
  "refName n = (case getAttribute n ''ref'' of None \<Rightarrow> [] | Some v \<Rightarrow> v)"

definition isArrayRef :: "node \<Rightarrow> bool" where
  "isArrayRef n = endsWith (refName n) ''[]''"

definition refPath :: "node \<Rightarrow> string" where
  "refPath n = (if isArrayRef n then take (length (refName n) - 2) (refName n) else refName n)"

definition arrayAt :: "string \<Rightarrow> (string \<times> refval) list \<Rightarrow> node list" where
  "arrayAt name rs = (case map_of rs name of Some (Many xs) \<Rightarrow> xs | _ \<Rightarrow> [])"

text \<open>
  What the loop body of \<open>#updateRefs\<close> leaves as own properties when it stores an element
  whose name is not \<open>__proto__\<close> in an object whose prototype is \<open>Object.prototype\<close>.
\<close>

definition storeRef :: "(string \<times> refval) list \<Rightarrow> node \<Rightarrow> (string \<times> refval) list" where
  "storeRef rs n =
    AList.update (refPath n)
      (if isArrayRef n then Many (arrayAt (refPath n) rs @ [n]) else Single n) rs"

subsection \<open>The component boundary, as the specification words it\<close>

text \<open>
  The specification collects the descendants "whose nearest component ancestor is
  \<open>this\<close>". Read top-down: starting below the component, an element belongs to the
  component, and so do the elements below it unless it is itself a component (an instance
  of \<open>Component\<close>, or an \<open>HTMLElement\<close> whose tag ends in \<open>-component\<close>); what lies below
  such a nested component is nested. These definitions read the tree of the component's
  element and nothing else: its children, and the content of its shadow root if it has one.
\<close>

definition componentLike :: "node \<Rightarrow> bool" where
  "componentLike n =
    (kind n = ComponentInstance
     \<or> (kind n \<noteq> OtherElement \<and> endsWith (toLowerCase (tagName n)) ''-component''))"

fun ownElements :: "node \<Rightarrow> node list" and ownElementsAll :: "node list \<Rightarrow> node list" where
  "ownElements (Node i k t a s cs) =
     Node i k t a s cs # (if componentLike (Node i k t a s cs) then [] else ownElementsAll cs)"
| "ownElementsAll [] = []"
| "ownElementsAll (n # ns) = ownElements n @ ownElementsAll ns"

fun nestedElements :: "node \<Rightarrow> node list" and nestedElementsAll :: "node list \<Rightarrow> node list" where
  "nestedElements (Node i k t a s cs) =
     (if componentLike (Node i k t a s cs) then map fst (subtrees [] cs) else nestedElementsAll cs)"
| "nestedElementsAll [] = []"
| "nestedElementsAll (n # ns) = nestedElements n @ nestedElementsAll ns"

definition ownShadowContent :: "component \<Rightarrow> node list" where
  "ownShadowContent c = (case shadowRoot (element c) of None \<Rightarrow> [] | Some content \<Rightarrow> content)"

definition spec_subtree :: "component \<Rightarrow> node list" where
  "spec_subtree c =
    map fst (subtrees [] (childNodes (element c))) @ map fst (subtrees [] (ownShadowContent c))"

definition spec_ownElements :: "component \<Rightarrow> node list" where
  "spec_ownElements c =
    ownElementsAll (childNodes (element c)) @ ownElementsAll (ownShadowContent c)"

definition spec_nestedElements :: "component \<Rightarrow> node list" where
  "spec_nestedElements c =
    nestedElementsAll (childNodes (element c)) @ nestedElementsAll (ownShadowContent c)"

text \<open>
  All the elements below the component, the content of every shadow root included, each
  with its chain of ancestors.
\<close>

definition spec_shadowIncludingSubtree :: "component \<Rightarrow> located list" where
  "spec_shadowIncludingSubtree c =
    shadowIncludingAll (ShadowRoot # thisPlace c) (ownShadowContent c)
      @ shadowIncludingAll (thisPlace c) (childNodes (element c))"

text \<open>The identity of the closest component of a place, if there is one.\<close>

definition closestId :: "place \<Rightarrow> nat option" where
  "closestId up = (case getClosestComponent up of Elem m # _ \<Rightarrow> Some (nid m) | _ \<Rightarrow> None)"

text \<open>
  A component is well formed when its element is an instance of \<open>Component\<close> and no two
  elements among the component, its descendants and the descendants of its shadow root
  are the same object.
\<close>

definition wellFormed :: "component \<Rightarrow> bool" where
  "wellFormed c =
    (kind (element c) = ComponentInstance \<and> distinct (map nid (element c # spec_subtree c)))"

section \<open>Delegated events\<close>

subsection \<open>Parsing the binding attribute\<close>

text \<open>
  \<open>split sep\<close> is \<open>String.prototype.split\<close> with a one-character separator: it always
  returns at least one part.
\<close>

fun split :: "char \<Rightarrow> string \<Rightarrow> string list" where
  "split sep [] = [[]]"
| "split sep (c # cs) =
     (if c = sep then [] # split sep cs
      else (case split sep cs of [] \<Rightarrow> [[c]] | part # parts \<Rightarrow> (c # part) # parts))"

definition isDelimiter :: "char \<Rightarrow> bool" where
  "isDelimiter c = (c = CHR ''/'' \<or> c = CHR ''?'')"

text \<open>
  The second group of the regular expression
  \<^verbatim>\<open>/([\/\?][^\/\?]+)([\/\?][^\/\?]+)$/\<close>, \<open>None\<close> when there is no match: the value
  must end with a delimiter and a non-empty run free of delimiters, preceded by another
  delimiter and non-empty run. The string is read from its end.
\<close>

definition lastSegment :: "string \<Rightarrow> string option" where
  "lastSegment v =
    (let r = rev v;
         run2 = takeWhile (\<lambda>c. \<not> isDelimiter c) r
     in case dropWhile (\<lambda>c. \<not> isDelimiter c) r of
          [] \<Rightarrow> None
        | delimiter2 # front \<Rightarrow>
            if run2 = [] \<or> takeWhile (\<lambda>c. \<not> isDelimiter c) front = []
               \<or> dropWhile (\<lambda>c. \<not> isDelimiter c) front = []
            then None
            else Some (delimiter2 # rev run2))"

definition isLineTerminator :: "char \<Rightarrow> bool" where
  "isLineTerminator c = (c = CHR 0x0A \<or> c = CHR 0x0D)"

text \<open>
  \<^verbatim>\<open>method.replace(/\?.*/, '')\<close>: the first \<open>?\<close> is removed with what follows it on
  its line (the dot does not match a line terminator).
\<close>

definition stripQuery :: "string \<Rightarrow> string" where
  "stripQuery m =
    (case dropWhile (\<lambda>c. c \<noteq> CHR ''?'') m of
       [] \<Rightarrow> m
     | q # rest \<Rightarrow>
         takeWhile (\<lambda>c. c \<noteq> CHR ''?'') m @ dropWhile (\<lambda>c. \<not> isLineTerminator c) rest)"

text \<open>\<open>let [selector, method] = value.split('/')\<close>; \<open>None\<close> is \<open>undefined\<close>.\<close>

definition bindingSelector :: "string \<Rightarrow> string" where
  "bindingSelector v = (case split CHR ''/'' v of [] \<Rightarrow> [] | selector # _ \<Rightarrow> selector)"

definition bindingMethod :: "string \<Rightarrow> string option" where
  "bindingMethod v = (case split CHR ''/'' v of _ # method # _ \<Rightarrow> Some method | _ \<Rightarrow> None)"

subsection \<open>Numbers\<close>

text \<open>
  The strings that \<open>URLSearchParams\<close> returns can hold any character, so the values are
  strings of code points, and \<open>ustr\<close> turns a string of the DOM into one.
\<close>

type_synonym ustring = "int list"

definition ustr :: "string \<Rightarrow> ustring" where
  "ustr s = map of_char s"

text \<open>
  A number is a double: not-a-number, an infinity, the negative zero, or a rational value
  (every finite double is one; \<open>Value 0\<close> is the positive zero).
\<close>

datatype jsnumber = NaN | Value rat | NegativeZero | PositiveInfinity | NegativeInfinity

definition pow2 :: "int \<Rightarrow> rat" where
  "pow2 k = (if 0 \<le> k then 2 ^ nat k else 1 / 2 ^ nat (- k))"

definition pow10 :: "int \<Rightarrow> rat" where
  "pow10 k = (if 0 \<le> k then 10 ^ nat k else 1 / 10 ^ nat (- k))"

text \<open>The exponent \<open>e\<close> with \<open>2^e \<le> r < 2^(e+1)\<close>, for a positive \<open>r\<close>.\<close>

definition log2floor :: "rat \<Rightarrow> int" where
  "log2floor r =
    (let d = bitlen (fst (quotient_of r)) - bitlen (snd (quotient_of r))
     in if r < pow2 d then d - 1 else d)"

definition roundHalfEven :: "rat \<Rightarrow> int" where
  "roundHalfEven r =
    (let f = \<lfloor>r\<rfloor>; d = r - of_int f
     in if d < 1 / 2 then f else if 1 / 2 < d then f + 1 else if even f then f else f + 1)"

text \<open>
  The double nearest to a rational \<open>r \<ge> 0\<close>, ties to the even significand; \<open>None\<close> when
  it is out of range. Doubles are the multiples of \<open>2^(e-52)\<close> between \<open>2^e\<close> and
  \<open>2^(e+1)\<close>, and of \<open>2^-1074\<close> below \<open>2^-1022\<close>. An integer up to \<open>2^53\<close> is a double.
\<close>

definition roundToDouble :: "rat \<Rightarrow> rat option" where
  "roundToDouble r =
    (if r = of_int \<lfloor>r\<rfloor> \<and> r \<le> 9007199254740992 then Some r
     else (let unit = pow2 (max (log2floor r - 52) (- 1074));
               v = of_int (roundHalfEven (r / unit)) * unit
           in if pow2 1024 \<le> v then None else Some v))"

definition toNumber :: "bool \<Rightarrow> rat \<Rightarrow> jsnumber" where
  "toNumber negative r =
    (case roundToDouble r of
       None \<Rightarrow> if negative then NegativeInfinity else PositiveInfinity
     | Some v \<Rightarrow>
         if v = 0 then (if negative then NegativeZero else Value 0)
         else Value (if negative then - v else v))"

text \<open>
  The white space of ECMAScript (\<open>WhiteSpace\<close> and \<open>LineTerminator\<close>), which \<open>trim\<close>
  and \<open>Number\<close> strip from both ends.
\<close>

definition isStrWhiteSpace :: "int \<Rightarrow> bool" where
  "isStrWhiteSpace u =
    (u \<in> set [0x9, 0xA, 0xB, 0xC, 0xD, 0x20, 0xA0, 0x1680, 0x2028, 0x2029, 0x202F, 0x205F,
              0x3000, 0xFEFF]
     \<or> (0x2000 \<le> u \<and> u \<le> 0x200A))"

definition trim :: "ustring \<Rightarrow> ustring" where
  "trim s = rev (dropWhile isStrWhiteSpace (rev (dropWhile isStrWhiteSpace s)))"

definition isDecimalDigit :: "int \<Rightarrow> bool" where
  "isDecimalDigit u = (48 \<le> u \<and> u \<le> 57)"

definition decimalValue :: "ustring \<Rightarrow> int" where
  "decimalValue ds = foldl (\<lambda>a u. 10 * a + (u - 48)) 0 ds"

definition dropSign :: "ustring \<Rightarrow> ustring" where
  "dropSign s = (case s of [] \<Rightarrow> [] | u # r \<Rightarrow> if u = 43 \<or> u = 45 then r else s)"

text \<open>
  \<open>ExponentPart\<close>, optional: \<open>e\<close> or \<open>E\<close>, an optional sign, and digits. \<open>None\<close> when
  the string is neither empty nor an exponent part.
\<close>

definition exponentPart :: "ustring \<Rightarrow> int option" where
  "exponentPart s =
    (case s of
       [] \<Rightarrow> Some 0
     | u # r \<Rightarrow>
         if (u = 101 \<or> u = 69) \<and> dropSign r \<noteq> [] \<and> list_all isDecimalDigit (dropSign r)
         then Some (if take 1 r = [45] then - decimalValue (dropSign r) else decimalValue (dropSign r))
         else None)"

text \<open>
  \<open>StrUnsignedDecimalLiteral\<close> other than \<open>Infinity\<close>: digits, a point and digits (one of
  the two runs may be empty), and an exponent part. The result is the pair \<open>(m, x)\<close> of the
  value \<open>m * 10^x\<close>.
\<close>

definition unsignedDecimal :: "ustring \<Rightarrow> (int \<times> int) option" where
  "unsignedDecimal s =
    (let integerDigits = takeWhile isDecimalDigit s;
         afterInteger = dropWhile isDecimalDigit s;
         hasPoint = (take 1 afterInteger = [46]);
         fractionDigits = (if hasPoint then takeWhile isDecimalDigit (drop 1 afterInteger) else []);
         afterFraction = (if hasPoint then dropWhile isDecimalDigit (drop 1 afterInteger)
                          else afterInteger)
     in if integerDigits = [] \<and> fractionDigits = [] then None
        else (case exponentPart afterFraction of
                None \<Rightarrow> None
              | Some x \<Rightarrow>
                  Some (decimalValue (integerDigits @ fractionDigits), x - int (length fractionDigits))))"

text \<open>\<open>NonDecimalIntegerLiteral\<close>: \<open>0x\<close>, \<open>0o\<close> or \<open>0b\<close> and digits of that radix.\<close>

definition digitOf :: "int \<Rightarrow> int option" where
  "digitOf u =
    (if 48 \<le> u \<and> u \<le> 57 then Some (u - 48)
     else if 97 \<le> u \<and> u \<le> 102 then Some (u - 87)
     else if 65 \<le> u \<and> u \<le> 70 then Some (u - 55)
     else None)"

definition radixValue :: "int \<Rightarrow> ustring \<Rightarrow> int option" where
  "radixValue radix ds =
    (if ds \<noteq> [] \<and> list_all (\<lambda>u. case digitOf u of None \<Rightarrow> False | Some d \<Rightarrow> d < radix) ds
     then Some (foldl (\<lambda>a u. radix * a + the (digitOf u)) 0 ds)
     else None)"

definition nonDecimal :: "ustring \<Rightarrow> int option" where
  "nonDecimal s =
    (case s of
       z # x # ds \<Rightarrow>
         if z \<noteq> 48 then None
         else if x = 120 \<or> x = 88 then radixValue 16 ds
         else if x = 111 \<or> x = 79 then radixValue 8 ds
         else if x = 98 \<or> x = 66 then radixValue 2 ds
         else None
     | _ \<Rightarrow> None)"

text \<open>\<open>Number(str)\<close>, on the string grammar of ECMAScript (\<open>StringNumericLiteral\<close>).\<close>

definition Number :: "ustring \<Rightarrow> jsnumber" where
  "Number str =
    (let t = trim str; negative = (take 1 t = [45])
     in if t = [] then Value 0
        else if dropSign t = ustr ''Infinity''
        then (if negative then NegativeInfinity else PositiveInfinity)
        else (case nonDecimal t of
                Some n \<Rightarrow> toNumber False (of_int n)
              | None \<Rightarrow>
                  (case unsignedDecimal (dropSign t) of
                     None \<Rightarrow> NaN
                   | Some mx \<Rightarrow> toNumber negative (of_int (fst mx) * pow10 (snd mx)))))"

subsection \<open>Values\<close>

datatype jsvalue = VBoolean bool | VNumber jsnumber | VString ustring

definition parseValue :: "ustring \<Rightarrow> jsvalue" where
  "parseValue str =
    (if str = ustr ''true'' then VBoolean True
     else if str = ustr ''false'' then VBoolean False
     else (let maybeNumber = Number str
           in if maybeNumber \<noteq> NaN \<and> trim str \<noteq> [] then VNumber maybeNumber
              else VString str))"

text \<open>
  \<open>new URLSearchParams(data).entries()\<close>: a leading \<open>?\<close> is dropped, the rest is split at
  \<open>&\<close>, empty pieces are skipped and each piece is split at its first \<open>=\<close>. Name and value
  are then encoded as UTF-8, \<open>+\<close> becomes a space, every \<open>%XX\<close> becomes the byte it names,
  and the bytes are decoded as UTF-8, each malformed sequence giving U+FFFD.
\<close>

definition utf8Encode :: "string \<Rightarrow> int list" where
  "utf8Encode s =
    concat (map (\<lambda>c. if (of_char c :: int) < 128 then [of_char c]
                      else [192 + of_char c div 64, 128 + of_char c mod 64]) s)"

definition isHexDigit :: "int \<Rightarrow> bool" where
  "isHexDigit u = (digitOf u \<noteq> None)"

fun percentDecode :: "int list \<Rightarrow> int list" where
  "percentDecode (b # h # l # rest) =
     (if b = 37 \<and> isHexDigit h \<and> isHexDigit l
      then (16 * the (digitOf h) + the (digitOf l)) # percentDecode rest
      else b # percentDecode (h # l # rest))"
| "percentDecode bs = bs"

text \<open>
  The UTF-8 decoder of the Encoding standard. \<open>utf8Continue\<close> reads the continuation
  bytes of one sequence: \<open>cp\<close> is the code point so far, \<open>needed\<close> the number of bytes
  still to come, and the next byte must lie between \<open>lower\<close> and \<open>upper\<close>; a byte
  outside ends the sequence with U+FFFD and is read again as the start of the next one.
\<close>

fun utf8Decode :: "int list \<Rightarrow> ustring"
  and utf8Continue :: "int \<Rightarrow> nat \<Rightarrow> int \<Rightarrow> int \<Rightarrow> int list \<Rightarrow> ustring" where
  "utf8Decode [] = []"
| "utf8Decode (b # bs) =
     (if b \<le> 0x7F then b # utf8Decode bs
      else if 0xC2 \<le> b \<and> b \<le> 0xDF then utf8Continue (b - 0xC0) 1 0x80 0xBF bs
      else if 0xE0 \<le> b \<and> b \<le> 0xEF
      then utf8Continue (b - 0xE0) 2 (if b = 0xE0 then 0xA0 else 0x80) (if b = 0xED then 0x9F else 0xBF) bs
      else if 0xF0 \<le> b \<and> b \<le> 0xF4
      then utf8Continue (b - 0xF0) 3 (if b = 0xF0 then 0x90 else 0x80) (if b = 0xF4 then 0x8F else 0xBF) bs
      else 0xFFFD # utf8Decode bs)"
| "utf8Continue cp needed lower upper [] = [0xFFFD]"
| "utf8Continue cp needed lower upper (b # bs) =
     (if b < lower \<or> upper < b then 0xFFFD # utf8Decode (b # bs)
      else if needed \<le> 1 then (64 * cp + (b - 0x80)) # utf8Decode bs
      else utf8Continue (64 * cp + (b - 0x80)) (needed - 1) 0x80 0xBF bs)"

definition formDecode :: "string \<Rightarrow> ustring" where
  "formDecode s = utf8Decode (percentDecode (map (\<lambda>b. if b = 43 then 32 else b) (utf8Encode s)))"

definition URLSearchParams :: "string \<Rightarrow> (ustring \<times> ustring) list" where
  "URLSearchParams init =
    map (\<lambda>piece. (formDecode (takeWhile (\<lambda>c. c \<noteq> CHR ''='') piece),
                  formDecode (drop 1 (dropWhile (\<lambda>c. c \<noteq> CHR ''='') piece))))
      (filter (\<lambda>piece. piece \<noteq> [])
         (split CHR ''&'' (if take 1 init = ''?'' then drop 1 init else init)))"

text \<open>
  \<open>Object.fromEntries\<close>: the object that maps each key to the value of its last entry.
  The data handed to a method is that object, or one scalar.
\<close>

datatype data = Scalar jsvalue | Object "ustring \<Rightarrow> jsvalue option"

definition fromEntries :: "(ustring \<times> jsvalue) list \<Rightarrow> ustring \<Rightarrow> jsvalue option" where
  "fromEntries entries = foldl (\<lambda>obj kv. obj(fst kv \<mapsto> snd kv)) Map.empty entries"

definition parseData :: "string \<Rightarrow> data" where
  "parseData str =
    (let delimiter = take 1 str; data = drop 1 str
     in if delimiter = ''?''
        then Object (fromEntries (map (\<lambda>kv. (fst kv, parseValue (snd kv))) (URLSearchParams data)))
        else Scalar (parseValue (ustr data)))"

subsection \<open>Events, the host and the listener\<close>

text \<open>
  Of an event the listener reads its type, the first entry of its composed path (falling
  back to its target), whether it bubbles, and its target. \<open>origin\<close> is that first entry
  when it is an element, with its place in the tree; \<open>target\<close> is the identity of
  \<open>event.target\<close> when that is an element.
\<close>

record event =
  etype :: string
  origin :: "located option"
  target :: "nat option"
  bubbles :: bool

text \<open>
  The event a method receives: the event itself, or a proxy whose \<open>target\<close> is the
  matched element (\<open>Some element\<close>).
\<close>

datatype arg = ArgData data | ArgEvent event "node option"

datatype exn = SyntaxError string | Thrown string

text \<open>
  The host supplies what the program does not define: which strings are selectors and
  what they match (\<open>None\<close>: the selector is malformed, and \<open>querySelector\<close> and
  \<open>closest\<close> throw a \<open>SyntaxError\<close>); what reading a property of an element gives (a
  function, another value, or the exception its accessor throws); and whether a method
  call throws (\<open>Some x\<close>: it throws \<open>x\<close>).
\<close>

datatype property = Function | NotFunction | AccessorThrows string

record host =
  css :: "string \<Rightarrow> (node \<Rightarrow> bool) option"
  readProperty :: "node \<Rightarrow> string \<Rightarrow> property"
  behaviour :: "node \<Rightarrow> string \<Rightarrow> arg list \<Rightarrow> string option"

record dispatch_result =
  invoked :: "(node \<times> string \<times> arg list) list"
  consoleErrors :: "string list"
  uncaught :: "exn option"

definition quiet :: dispatch_result where
  "quiet = \<lparr>invoked = [], consoleErrors = [], uncaught = None\<rparr>"

text \<open>\<open>Element.closest\<close> climbs through parent elements and stops at a shadow root.\<close>

fun closest :: "(node \<Rightarrow> bool) \<Rightarrow> place \<Rightarrow> located option" where
  "closest matches [] = None"
| "closest matches (ShadowRoot # up) = None"
| "closest matches (Elem n # up) = (if matches n then Some (n, up) else closest matches up)"

definition querySelector :: "(node \<Rightarrow> bool) \<Rightarrow> node list \<Rightarrow> located option" where
  "querySelector matches doc = find (\<lambda>e. matches (fst e)) (subtrees [] doc)"

definition getElement :: "event \<Rightarrow> located option" where
  "getElement ev =
    (case origin ev of
       None \<Rightarrow> None
     | Some t \<Rightarrow>
         if hasAttribute (fst t) (''on:'' @ etype ev) then Some t
         else if etype ev \<in> set expensiveEvents then None
         else if bubbles ev \<or> etype ev \<in> set shouldBubble
         then closest (\<lambda>n. hasAttribute n (''on:'' @ etype ev)) (Elem (fst t) # snd t)
         else None)"

text \<open>
  The instance the binding addresses: found by \<open>document.querySelector\<close> for a selector
  that starts with \<open>#\<close>, by \<open>element.closest\<close> for any other selector, and by
  \<open>getClosestComponent\<close> without a selector. A malformed selector throws.
\<close>

definition resolveInstance ::
  "host \<Rightarrow> node list \<Rightarrow> located \<Rightarrow> string \<Rightarrow> exn + located option" where
  "resolveInstance H doc e selector =
    (if selector \<noteq> []
     then (case css H selector of
             None \<Rightarrow> Inl (SyntaxError selector)
           | Some matches \<Rightarrow>
               Inr (if startsWith selector ''#'' then querySelector matches doc
                    else closest matches (Elem (fst e) # snd e)))
     else Inr (case getClosestComponent (Elem (fst e) # snd e) of
                 Elem n # up \<Rightarrow> Some (n, up)
               | _ \<Rightarrow> None))"

definition proxiedEvent :: "event \<Rightarrow> located \<Rightarrow> arg" where
  "proxiedEvent ev e =
    ArgEvent ev (if target ev \<noteq> Some (nid (fst e)) then Some (fst e) else None)"

text \<open>
  The listener \<open>registerEventListeners\<close> adds for one event kind; \<open>attr\<close> is its
  \<open>on:\<close> attribute. The result lists the methods invoked with their arguments, what
  \<open>console.error\<close> received, and the exception that left the listener, if any. The
  property \<open>instance[method]\<close> is read before the \<open>try\<close> block, so what its accessor
  throws leaves the listener; what the call throws is caught.
\<close>

definition listener :: "host \<Rightarrow> node list \<Rightarrow> string \<Rightarrow> event \<Rightarrow> dispatch_result" where
  "listener H doc attr ev =
    (case getElement ev of
       None \<Rightarrow> quiet
     | Some e \<Rightarrow>
         (let v = (case getAttribute (fst e) attr of None \<Rightarrow> [] | Some x \<Rightarrow> x);
              data = lastSegment v
          in case resolveInstance H doc e (bindingSelector v) of
               Inl x \<Rightarrow> quiet\<lparr>uncaught := Some x\<rparr>
             | Inr None \<Rightarrow> quiet
             | Inr (Some instance) \<Rightarrow>
                 (case bindingMethod v of
                    None \<Rightarrow> quiet
                  | Some method \<Rightarrow>
                      if kind (fst instance) \<noteq> ComponentInstance \<or> method = [] then quiet
                      else
                        (case readProperty H (fst instance) (stripQuery method) of
                           AccessorThrows x \<Rightarrow> quiet\<lparr>uncaught := Some (Thrown x)\<rparr>
                         | NotFunction \<Rightarrow> quiet
                         | Function \<Rightarrow>
                             (let args = (case data of
                                            None \<Rightarrow> [proxiedEvent ev e]
                                          | Some d \<Rightarrow> [ArgData (parseData d), proxiedEvent ev e])
                              in \<lparr>invoked = [(fst instance, stripQuery method, args)],
                                  consoleErrors =
                                    (case behaviour H (fst instance) (stripQuery method) args of
                                       None \<Rightarrow> []
                                     | Some x \<Rightarrow> [x]),
                                  uncaught = None\<rparr>)))))"

text \<open>The browser calls every listener registered for the type of the event.\<close>

definition dispatchEvent :: "page \<Rightarrow> host \<Rightarrow> node list \<Rightarrow> event \<Rightarrow> dispatch_result list" where
  "dispatchEvent p H doc ev =
    map (\<lambda>l. listener H doc (attribute l) ev) (filter (\<lambda>l. eventName l = etype ev) (listeners p))"

text \<open>
  A segment of a binding: not empty and free of the delimiters \<open>/\<close> and \<open>?\<close>.
\<close>

definition plainSegment :: "string \<Rightarrow> bool" where
  "plainSegment s = (s \<noteq> [] \<and> list_all (\<lambda>c. \<not> isDelimiter c) s)"

text \<open>
  A word of a query string that stands for itself: ASCII, and free of \<open>&\<close>, \<open>=\<close>, \<open>+\<close>
  and \<open>%\<close>.
\<close>

definition plainWord :: "string \<Rightarrow> bool" where
  "plainWord s =
    list_all (\<lambda>c. (of_char c :: int) < 128 \<and> c \<notin> set [CHR ''&'', CHR ''='', CHR ''+'', CHR ''%'']) s"

definition isLetter :: "char \<Rightarrow> bool" where
  "isLetter c = (c \<in> set ''abcdefghijklmnopqrstuvwxyzABCDEFGHIJKLMNOPQRSTUVWXYZ'')"

subsection \<open>An example host and page\<close>

text \<open>
  The selector engine of the example host knows type selectors and ID selectors and
  refuses every other string, among them \<open>#\<close>, which no engine accepts. Its only
  component has three methods, of which \<open>explode\<close> throws, and an accessor \<open>broken\<close>
  whose getter throws.
\<close>

definition isIdentifier :: "string \<Rightarrow> bool" where
  "isIdentifier s =
    (case s of
       [] \<Rightarrow> False
     | c # r \<Rightarrow> (isLetter c \<or> c = CHR ''_'')
                \<and> list_all (\<lambda>x. isLetter x \<or> isDigit x \<or> x = CHR ''-'' \<or> x = CHR ''_'') r)"

definition simpleSelector :: "string \<Rightarrow> (node \<Rightarrow> bool) option" where
  "simpleSelector sel =
    (if isIdentifier sel then Some (\<lambda>n. toLowerCase (tagName n) = toLowerCase sel)
     else if take 1 sel = ''#'' \<and> isIdentifier (drop 1 sel)
     then Some (\<lambda>n. getAttribute n ''id'' = Some (drop 1 sel))
     else None)"

definition exampleHost :: host where
  "exampleHost =
    \<lparr>css = simpleSelector,
     readProperty = (\<lambda>n m. if nid n = 1 \<and> m \<in> set [''save'', ''setQty'', ''explode''] then Function
                            else if nid n = 1 \<and> m = ''broken'' then AccessorThrows ''getter failed''
                            else NotFunction),
     behaviour = (\<lambda>n m args. if m = ''explode'' then Some ''boom'' else None)\<rparr>"

definition button :: "nat \<Rightarrow> string \<Rightarrow> node" where
  "button i binding = Node i HtmlElement ''BUTTON'' [(''on:click'', binding)] None []"

definition icon :: node where
  "icon = Node 11 OtherElement ''svg'' [] None []"

definition iconButton :: node where
  "iconButton = Node 10 HtmlElement ''BUTTON'' [(''on:click'', ''/save'')] None [icon]"

definition cartItems :: node where
  "cartItems =
    Node 1 ComponentInstance ''CART-ITEMS-COMPONENT'' [(''id'', ''cart'')] None
      [button 2 ''/save'', button 3 ''/setQty?amount=2'', button 4 ''/explode'',
       button 5 ''/missing'', button 6 ''#nothing/save'', button 7 ''save'', button 8 ''#'',
       button 9 ''/broken'', iconButton]"

definition click :: "node \<Rightarrow> event" where
  "click n = \<lparr>etype = ''click'', origin = Some (n, [Elem cartItems]), target = Some (nid n),
              bubbles = True\<rparr>"

text \<open>A click on the icon inside \<open>iconButton\<close>, and the pointer entering the icon.\<close>

definition clickIcon :: event where
  "clickIcon = \<lparr>etype = ''click'', origin = Some (icon, [Elem iconButton, Elem cartItems]),
                target = Some (nid icon), bubbles = True\<rparr>"

subsection \<open>Example components\<close>

text \<open>
  A cart drawer that is rendered after the page has loaded: its shadow root is still the
  template \<open>cartDrawerTemplate\<close>. It requires the refs \<open>close\<close> and \<open>dialog\<close>; only
  \<open>close\<close> exists, inside the template.
\<close>

definition cartDrawerTemplate :: "node list" where
  "cartDrawerTemplate = [Node 3 HtmlElement ''BUTTON'' [(''ref'', ''close'')] None []]"

definition cartDrawer :: component where
  "cartDrawer =
    \<lparr>element = Node 1 ComponentInstance ''CART-DRAWER'' [] None
                 [Node 2 HtmlElement ''TEMPLATE'' [(''shadowrootmode'', ''open'')] None []],
     parents = [], requiredRefs = Some [''close'', ''dialog''], refs = emptyObject,
     idleCallbacks = 0\<rparr>"

text \<open>
  A component without any ref that requires \<open>toString\<close>, and one that requires
  \<open>length\<close> and whose only ref is named \<^verbatim>\<open>__proto__[]\<close>.
\<close>

definition requiresToString :: component where
  "requiresToString =
    \<lparr>element = Node 1 ComponentInstance ''CART-DRAWER'' [] None [],
     parents = [], requiredRefs = Some [''toString''], refs = emptyObject, idleCallbacks = 0\<rparr>"

definition requiresLength :: component where
  "requiresLength =
    \<lparr>element = Node 1 ComponentInstance ''CART-DRAWER'' [] None
                 [Node 2 HtmlElement ''LI'' [(''ref'', ''__proto__[]'')] None []],
     parents = [], requiredRefs = Some [''length''], refs = emptyObject, idleCallbacks = 0\<rparr>"

text \<open>
  An outer component with a nested component among its children and another one in its
  shadow root.
\<close>

definition outerComponent :: component where
  "outerComponent =
    \<lparr>element = Node 1 ComponentInstance ''OUTER-COMPONENT'' []
        (Some [Node 5 HtmlElement ''SLOT'' [(''ref'', ''slot'')] None [],
               Node 6 HtmlElement ''NESTED-COMPONENT'' [] None
                 [Node 7 HtmlElement ''SPAN'' [(''ref'', ''c'')] None []]])
        [Node 2 HtmlElement ''DIV'' [(''ref'', ''a'')] None [],
         Node 3 HtmlElement ''INNER-COMPONENT'' [] None
           [Node 4 HtmlElement ''SPAN'' [(''ref'', ''b'')] None []]],
     parents = [], requiredRefs = None, refs = emptyObject, idleCallbacks = 0\<rparr>"

text \<open>
  A component whose child \<open>overflow-list\<close>, not a component, has a shadow root of its own
  with a ref inside.
\<close>

definition listInside :: component where
  "listInside =
    \<lparr>element = Node 1 ComponentInstance ''HEADER-COMPONENT'' [] None
        [Node 2 HtmlElement ''OVERFLOW-LIST'' []
           (Some [Node 3 HtmlElement ''SLOT'' [(''ref'', ''more'')] None []])
           [Node 4 HtmlElement ''LI'' [(''ref'', ''item'')] None []]],
     parents = [], requiredRefs = None, refs = emptyObject, idleCallbacks = 0\<rparr>"

definition collidingNames :: component where
  "collidingNames =
    \<lparr>element = Node 1 ComponentInstance ''MENU-COMPONENT'' [] None
        [Node 2 HtmlElement ''LI'' [(''ref'', ''items[]'')] None [],
         Node 3 HtmlElement ''SPAN'' [(''ref'', ''items'')] None [],
         Node 4 HtmlElement ''LI'' [(''ref'', ''items[]'')] None []],
     parents = [], requiredRefs = None, refs = emptyObject, idleCallbacks = 0\<rparr>"

definition protoName :: component where
  "protoName =
    \<lparr>element = Node 1 ComponentInstance ''MENU-COMPONENT'' [] None
        [Node 2 HtmlElement ''SPAN'' [(''ref'', ''title'')] None [],
         Node 3 HtmlElement ''LI'' [(''ref'', ''items[]'')] None [],
         Node 4 HtmlElement ''LI'' [(''ref'', ''items[]'')] None [],
         Node 5 HtmlElement ''DIV'' [(''ref'', ''__proto__'')] None []],
     parents = [], requiredRefs = None, refs = emptyObject, idleCallbacks = 0\<rparr>"

text \<open>A menu with items among its children and in its shadow root.\<close>

definition menuComponent :: component where
  "menuComponent =
    \<lparr>element = Node 1 ComponentInstance ''MENU-COMPONENT'' []
        (Some [Node 5 HtmlElement ''BUTTON'' [(''ref'', ''more'')] None [],
               Node 6 HtmlElement ''LI'' [(''ref'', ''items[]'')] None []])
        [Node 2 HtmlElement ''LI'' [(''ref'', ''items[]'')] None [],
         Node 3 HtmlElement ''SPAN'' [(''ref'', ''title'')] None [],
         Node 4 HtmlElement ''LI'' [(''ref'', ''items[]'')] None []],
     parents = [], requiredRefs = None, refs = emptyObject, idleCallbacks = 0\<rparr>"

section \<open>Properties of the overflow list\<close>

lemma filter_mem_filter: "filter (\<lambda>e. e \<in> set (filter P xs)) xs = filter P xs"
  by (rule filter_cong) auto

lemma set_remove1_append: "x \<in> set ys \<Longrightarrow> set (remove1 x ys @ [x]) = set ys"
  by (induction ys) auto

lemma length_remove1_append: "x \<in> set ys \<Longrightarrow> length (remove1 x ys @ [x]) = length ys"
  by (induction ys) auto

lemma visibleElements_forced:
  "visibleElements (Some x) L els =
     (if x \<in> set (filter (topAlignedMoreFirst L) els)
      then remove1 x (filter (topAlignedMoreFirst L) els) @ [x]
      else filter (topAlignedMoreFirst L) els)"
  by (simp add: visibleElements_def Let_def)

lemma visibleElements_unforced:
  "visibleElements None L els =
     (if length (filter (topAligned L) els) \<noteq> length els
      then filter (topAlignedMoreFirst L) els
      else filter (topAligned L) els)"
  by (simp add: visibleElements_def Let_def)

lemma visibleElements_cases:
  "(set (visibleElements f L els) = set (filter (topAligned L) els)
      \<and> length (visibleElements f L els) = length (filter (topAligned L) els))
   \<or> (set (visibleElements f L els) = set (filter (topAlignedMoreFirst L) els)
      \<and> length (visibleElements f L els) = length (filter (topAlignedMoreFirst L) els))"
proof (cases f)
  case None
  then show ?thesis by (simp only: visibleElements_unforced split: if_splits) simp
next
  case (Some x)
  show ?thesis
  proof (cases "x \<in> set (filter (topAlignedMoreFirst L) els)")
    case True
    from set_remove1_append [OF True] length_remove1_append [OF True] True Some
    show ?thesis by (simp only: visibleElements_forced if_True) simp
  next
    case False
    with Some show ?thesis by (simp only: visibleElements_forced if_False) simp
  qed
qed

lemma filter_mem_visibleElements:
  "length (filter (\<lambda>e. e \<in> set (visibleElements f L els)) els) = length (visibleElements f L els)"
  using visibleElements_cases [of f L els] by (auto simp only: filter_mem_filter)

lemma slots_after_reflow:
  "childSlots (reflowItems f L s) =
     map (\<lambda>c. if snd c = defaultSlotName
               then (fst c, if fst c \<in> set (overflowingElements f L (defaultSlotElements s)) then overflowSlotName else defaultSlotName)
               else c) (childSlots (moveItemsToDefaultSlot s))"
  by (simp add: reflowItems_def Let_def defaultSlotElements_def assignedElements_def moveItemsToDefaultSlot_def disconnectObservers_def updateMinimumReached_def split: option.splits)

lemma no_overflow_after_move: "c \<in> set (childSlots (moveItemsToDefaultSlot s)) \<Longrightarrow> snd c \<noteq> overflowSlotName"
  by (auto simp: moveItemsToDefaultSlot_def overflowSlotName_def defaultSlotName_def)

lemma reassign_overflow:
  "(\<And>c. c \<in> set cs \<Longrightarrow> snd c \<noteq> overflowSlotName) \<Longrightarrow>
   map fst (filter (\<lambda>c. snd c = overflowSlotName)
     (map (\<lambda>c. if snd c = defaultSlotName
               then (fst c, if fst c \<in> A then overflowSlotName else defaultSlotName)
               else c) cs))
   = filter (\<lambda>e. e \<in> A) (map fst (filter (\<lambda>c. snd c = defaultSlotName) cs))"
  by (induction cs) (auto simp: overflowSlotName_def defaultSlotName_def)

lemma reassign_default:
  "map fst (filter (\<lambda>c. snd c = defaultSlotName)
     (map (\<lambda>c. if snd c = defaultSlotName
               then (fst c, if fst c \<in> A then overflowSlotName else defaultSlotName)
               else c) cs))
   = filter (\<lambda>e. e \<notin> A) (map fst (filter (\<lambda>c. snd c = defaultSlotName) cs))"
  by (induction cs) (auto simp: overflowSlotName_def defaultSlotName_def)

lemma overflow_slot_after_reflow:
  "assignedElements overflowSlotName (reflowItems f L s) = overflowingElements f L (defaultSlotElements s)"
proof -
  have "assignedElements overflowSlotName (reflowItems f L s)
        = filter (\<lambda>e. e \<in> set (overflowingElements f L (defaultSlotElements s))) (defaultSlotElements s)"
    unfolding assignedElements_def slots_after_reflow
    by (subst reassign_overflow) (auto dest: no_overflow_after_move simp: defaultSlotElements_def assignedElements_def)
  then show ?thesis
    unfolding overflowingElements_def by (simp only: filter_mem_filter)
qed

lemma default_slot_after_reflow:
  "assignedElements defaultSlotName (reflowItems f L s)
   = filter (\<lambda>e. e \<in> set (visibleElements f L (defaultSlotElements s))) (defaultSlotElements s)"
proof -
  have "assignedElements defaultSlotName (reflowItems f L s)
        = filter (\<lambda>e. e \<notin> set (overflowingElements f L (defaultSlotElements s))) (defaultSlotElements s)"
    unfolding assignedElements_def slots_after_reflow
    by (subst reassign_default) (simp add: defaultSlotElements_def assignedElements_def)
  also have "\<dots> = filter (\<lambda>e. e \<in> set (visibleElements f L (defaultSlotElements s))) (defaultSlotElements s)"
    by (rule filter_cong) (simp_all add: overflowingElements_def)
  finally show ?thesis .
qed

lemma visible_count_after_reflow:
  "length (assignedElements defaultSlotName (reflowItems f L s))
   = length (visibleElements f L (defaultSlotElements s))"
  by (simp only: default_slot_after_reflow filter_mem_visibleElements)

lemma minimum_after_reflow:
  "minimumReachedAttr (reflowItems f L s) =
     (if overflowingElements f L (defaultSlotElements s) = [] then minimumReachedAttr s
      else minimumReachedAttr (updateMinimumReached (visibleElements f L (defaultSlotElements s)) s))"
  by (simp add: reflowItems_def Let_def defaultSlotElements_def assignedElements_def moveItemsToDefaultSlot_def disconnectObservers_def updateMinimumReached_def minimumItems_def split: option.splits)

lemma dispatched_after_reflow:
  "dispatched (reflowItems f L s) =
     (if overflowingElements f L (defaultSlotElements s) = [] then dispatched s
      else dispatched (updateMinimumReached (visibleElements f L (defaultSlotElements s)) s))"
  by (simp add: reflowItems_def Let_def defaultSlotElements_def assignedElements_def moveItemsToDefaultSlot_def disconnectObservers_def updateMinimumReached_def minimumItems_def split: option.splits)

lemma parseInt_2: "parseInt ''2'' = Some 2"
  by (simp add: parseInt_def isWhiteSpace_def isDigit_def digitsValue_def digitValue_def)

lemmas example_defs =
  threeItems_def created_def roomForAll_def roomForOne_def roomForTwo_def initialize_def

lemma reordered_only_in_the_local_list:
  "visibleElements (Some 2) roomForThree (defaultSlotElements fourItems) = [1, 3, 2]"
  by code_simp


text \<open>
  Claim C2, as amended. The list is configured with \<open>minimum-items="2"\<close>. Every reflow
  that leaves at least one element in the overflow slot sets the \<open>minimum-reached\<close>
  attribute and dispatches the notification with \<open>true\<close> when fewer than two elements
  stay visible, and removes the attribute and dispatches the notification with \<open>false\<close>
  when two or more stay visible. A reflow that leaves the overflow slot empty neither
  touches the attribute nor dispatches a notification.
\<close>

theorem minimum_reached_updated_when_overflowing:
  assumes "minimumItemsAttr s = Some ''2''"
  shows "(assignedElements overflowSlotName (reflowItems f L s) \<noteq> [] \<longrightarrow>
            minimumReachedAttr (reflowItems f L s)
              = (length (assignedElements defaultSlotName (reflowItems f L s)) < 2)
          \<and> dispatched (reflowItems f L s)
              = dispatched s @ [length (assignedElements defaultSlotName (reflowItems f L s)) < 2])
       \<and> (assignedElements overflowSlotName (reflowItems f L s) = [] \<longrightarrow>
            minimumReachedAttr (reflowItems f L s) = minimumReachedAttr s
          \<and> dispatched (reflowItems f L s) = dispatched s)"
  using assms
  by (auto simp: overflow_slot_after_reflow visible_count_after_reflow minimum_after_reflow
      dispatched_after_reflow updateMinimumReached_def minimumItems_def parseInt_2 Let_def)

theorem minimum_reached_updated_when_overflowing_witness:
  "minimumItemsAttr threeItems = Some ''2''
   \<and> length (assignedElements defaultSlotName (reflowItems None roomForOne threeItems)) = 1
   \<and> minimumReachedAttr (reflowItems None roomForOne threeItems)
   \<and> dispatched (reflowItems None roomForOne threeItems) = [True]
   \<and> length (assignedElements defaultSlotName
        (reflowItems None roomForTwo (reflowItems None roomForOne threeItems))) = 2
   \<and> \<not> minimumReachedAttr (reflowItems None roomForTwo (reflowItems None roomForOne threeItems))
   \<and> dispatched (reflowItems None roomForTwo (reflowItems None roomForOne threeItems))
       = [True, False]"
proof -
  let ?s1 = "reflowItems None roomForOne threeItems"
  let ?s2 = "reflowItems None roomForTwo ?s1"
  have m0: "minimumItemsAttr threeItems = Some ''2''"
    by (simp add: example_defs)
  have m1: "minimumItemsAttr ?s1 = Some ''2''"
    by code_simp
  have d0: "dispatched threeItems = []"
    by (simp add: example_defs)
  have o1: "assignedElements overflowSlotName ?s1 \<noteq> []"
    by code_simp
  have v1: "length (assignedElements defaultSlotName ?s1) = 1"
    by code_simp
  have o2: "assignedElements overflowSlotName ?s2 \<noteq> []"
    by code_simp
  have v2: "length (assignedElements defaultSlotName ?s2) = 2"
    by code_simp
  from minimum_reached_updated_when_overflowing [OF m0, of None roomForOne] o1 v1 d0
  have a: "minimumReachedAttr ?s1 \<and> dispatched ?s1 = [True]"
    by simp
  from minimum_reached_updated_when_overflowing [OF m1, of None roomForTwo] o2 v2 a
  have b: "\<not> minimumReachedAttr ?s2 \<and> dispatched ?s2 = [True, False]"
    by simp
  from m0 v1 v2 a b show ?thesis by blast
qed

text \<open>
  Claim C2 as stated fails: after a reflow that left one element visible, the container
  regains room for all three elements; the next reflow leaves three elements visible, yet
  the \<open>minimum-reached\<close> attribute stays set and no notification is dispatched.
\<close>

theorem minimum_reached_stale_without_overflow:
  "minimumItemsAttr threeItems = Some ''2''
   \<and> assignedElements defaultSlotName
        (reflowItems None roomForAll (reflowItems None roomForOne threeItems)) = [1, 2, 3]
   \<and> minimumReachedAttr (reflowItems None roomForAll (reflowItems None roomForOne threeItems))
   \<and> dispatched (reflowItems None roomForAll (reflowItems None roomForOne threeItems))
       = dispatched (reflowItems None roomForOne threeItems)"
  by code_simp

lemma showAll_disconnected:
  "\<not> resizeObserving (showAll s) \<and> \<not> mutationObserving (showAll s)"
  by (simp add: showAll_def reset_def moveItemsToDefaultSlot_def disconnectObservers_def)

lemma showAll_pending: "pending (showAll s) = pending s"
  by (simp add: showAll_def reset_def moveItemsToDefaultSlot_def disconnectObservers_def)

lemma showAll_overflow_empty: "assignedElements overflowSlotName (showAll s) = []"
  by (auto simp: showAll_def reset_def moveItemsToDefaultSlot_def disconnectObservers_def
      assignedElements_def overflowSlotName_def defaultSlotName_def filter_empty_conv)

lemma showAll_placeholder:
  "placeholderWidth (showAll s) = Some 0 \<and> placeholderDisplayNone (showAll s)"
  by (simp add: showAll_def reset_def moveItemsToDefaultSlot_def disconnectObservers_def)

lemma idle_step:
  "\<not> resizeObserving s \<Longrightarrow> \<not> mutationObserving s \<Longrightarrow> pending s = 0 \<Longrightarrow> unrequested x
   \<Longrightarrow> step s x = s"
  by (cases x) simp_all

lemma idle_run:
  "\<not> resizeObserving s \<Longrightarrow> \<not> mutationObserving s \<Longrightarrow> pending s = 0
   \<Longrightarrow> list_all unrequested xs \<Longrightarrow> run s xs = s"
  unfolding run_def by (induction xs) (simp_all add: idle_step)

lemma showAll_stays_when_nothing_pending:
  "pending s = 0 \<Longrightarrow> list_all unrequested xs \<Longrightarrow> run (showAll s) xs = showAll s"
  by (rule idle_run) (simp_all add: showAll_disconnected showAll_pending)

text \<open>
  Claim C9. Right after \<open>showAll\<close> the overflow slot is empty, the placeholder has
  width 0 and \<open>display: none\<close>, and both observers are disconnected; with no callback
  pending, no observer delivery and no scheduled callback changes the list again
  (\<open>showAll_stays_when_nothing_pending\<close>). A reflow that \<open>#handleChange\<close> scheduled before
  \<open>showAll\<close> is not cancelled, though: it runs afterwards, refills the overflow slot, gives
  the placeholder a width and observes the list again, so that the next resize schedules a
  further reflow, all with \<open>disabled="true"\<close> still set.
\<close>

theorem pending_reflow_survives_showAll:
  "disabledAttr (run (initialize roomForAll threeItems)
      [ResizeObserved [(600, 40)], ResizeObserved [(200, 40)], ShowAll,
       ScheduledCallback roomForOne]) = Some ''true''
   \<and> assignedElements overflowSlotName (run (initialize roomForAll threeItems)
      [ResizeObserved [(600, 40)], ResizeObserved [(200, 40)], ShowAll,
       ScheduledCallback roomForOne]) = [2, 3]
   \<and> placeholderWidth (run (initialize roomForAll threeItems)
      [ResizeObserved [(600, 40)], ResizeObserved [(200, 40)], ShowAll,
       ScheduledCallback roomForOne]) = Some 80
   \<and> resizeObserving (run (initialize roomForAll threeItems)
      [ResizeObserved [(600, 40)], ResizeObserved [(200, 40)], ShowAll,
       ScheduledCallback roomForOne])
   \<and> pending (run (initialize roomForAll threeItems)
      [ResizeObserved [(600, 40)], ResizeObserved [(200, 40)], ShowAll,
       ScheduledCallback roomForOne, ResizeObserved [(200, 40)], ResizeObserved [(150, 40)]]) = 1"
  by code_simp
section \<open>Properties of the event registry and of connecting\<close>

lemma registerEventListeners_idem:
  "registerEventListeners (registerEventListeners p) = registerEventListeners p"
  by (simp add: registerEventListeners_def)

lemma page_after_connectedCallback:
  "fst (outcomeState (connectedCallback clone (p, c))) = registerEventListeners p"
  by (simp add: connectedCallback_def Let_def split: outcome.splits)

lemma connectAll_registered:
  "connectAll cs (registerEventListeners p) = registerEventListeners p"
  by (induction cs) (simp_all add: connectAll_def page_after_connectedCallback registerEventListeners_idem)

text \<open>
  Claim C8. The registry is initialised once: a second call of
  \<open>registerEventListeners\<close> changes nothing, so after any number of calls, and after any
  number of components have connected (whether or not their \<open>connectedCallback\<close> threw),
  a page that started without listeners holds one capturing listener for each of the twelve
  supported event kinds.
\<close>

theorem registry_initialized_once:
  "registerEventListeners (registerEventListeners p) = registerEventListeners p
   \<and> (registerEventListeners ^^ Suc n) freshPage = registerEventListeners freshPage
   \<and> connectAll (x # xs) freshPage = registerEventListeners freshPage
   \<and> map eventName (listeners (registerEventListeners freshPage)) = events @ expensiveEvents
   \<and> distinct (events @ expensiveEvents)
   \<and> list_all capture (listeners (registerEventListeners freshPage))"
proof -
  have a: "(registerEventListeners ^^ Suc n) freshPage = registerEventListeners freshPage"
    by (induction n) (simp_all add: registerEventListeners_idem)
  have b: "connectAll (x # xs) freshPage = registerEventListeners freshPage"
    using connectAll_registered [of xs freshPage]
    by (simp add: connectAll_def page_after_connectedCallback)
  have c: "map eventName (listeners (registerEventListeners freshPage)) = events @ expensiveEvents"
    by (simp add: registerEventListeners_def freshPage_def comp_def)
  have d: "distinct (events @ expensiveEvents)"
    by (simp add: events_def expensiveEvents_def)
  have e: "list_all capture (listeners (registerEventListeners freshPage))"
    by (auto simp: registerEventListeners_def freshPage_def list_all_iff)
  from registerEventListeners_idem a b c d e show ?thesis by blast
qed

section \<open>Properties of the ref scan\<close>

lemma isDescendant_closestId: "isDescendant c e = (closestId (snd e) = Some (nid (element c)))"
  by (auto simp: isDescendant_def closestId_def split: list.splits link.splits)

lemma closestId_Elem:
  "closestId (Elem n # up) = (if componentLike n then Some (nid n) else closestId up)"
  by (simp add: closestId_def componentLike_def)

lemma closestId_ShadowRoot: "closestId (ShadowRoot # up) = closestId up"
  by (simp add: closestId_def)

lemma map_fst_subtree_place:
  "map fst (subtree up n) = map fst (subtree up' n)"
  "map fst (subtrees up ns) = map fst (subtrees up' ns)"
proof (induction up n and up ns arbitrary: up' and up' rule: subtree_subtrees.induct)
  case (1 up i k t a s cs)
  from 1 [of "Elem (Node i k t a s cs) # up'"] show ?case by simp
next
  case (2 up)
  show ?case by simp
next
  case (3 up n ns)
  from 3(1) [of up'] 3(2) [of up'] show ?case by simp
qed

lemma nothing_below_other_component:
  "closestId up = Some j \<Longrightarrow> j \<noteq> t \<Longrightarrow> t \<notin> nid ` fst ` set (subtree up n)
    \<Longrightarrow> filter (\<lambda>e. closestId (snd e) = Some t) (subtree up n) = []"
  "closestId up = Some j \<Longrightarrow> j \<noteq> t \<Longrightarrow> t \<notin> nid ` fst ` set (subtrees up ns)
    \<Longrightarrow> filter (\<lambda>e. closestId (snd e) = Some t) (subtrees up ns) = []"
proof (induction up n and up ns arbitrary: j and j rule: subtree_subtrees.induct)
  case (1 up i k t' a s cs)
  let ?n = "Node i k t' a s cs"
  have "closestId (Elem ?n # up) = Some (if componentLike ?n then i else j)"
    using 1(2) by (simp add: closestId_Elem)
  moreover have "(if componentLike ?n then i else j) \<noteq> t"
    using 1(3,4) by auto
  moreover have "t \<notin> nid ` fst ` set (subtrees (Elem ?n # up) cs)"
    using 1(4) by auto
  ultimately have "filter (\<lambda>e. closestId (snd e) = Some t) (subtrees (Elem ?n # up) cs) = []"
    by (rule 1(1))
  with 1(2,3) show ?case by simp
next
  case (2 up)
  show ?case by simp
next
  case (3 up n ns)
  have "t \<notin> nid ` fst ` set (subtree up n)" "t \<notin> nid ` fst ` set (subtrees up ns)"
    using 3(5) by auto
  with 3(1) [OF 3(3,4)] 3(2) [OF 3(3,4)] show ?case by simp
qed

lemma own_below_component:
  "closestId up = Some t \<Longrightarrow> t \<notin> nid ` fst ` set (subtree up n)
    \<Longrightarrow> map fst (filter (\<lambda>e. closestId (snd e) = Some t) (subtree up n)) = ownElements n"
  "closestId up = Some t \<Longrightarrow> t \<notin> nid ` fst ` set (subtrees up ns)
    \<Longrightarrow> map fst (filter (\<lambda>e. closestId (snd e) = Some t) (subtrees up ns)) = ownElementsAll ns"
proof (induction up n and up ns rule: subtree_subtrees.induct)
  case (1 up i k t' a s cs)
  let ?n = "Node i k t' a s cs"
  have notin: "t \<notin> nid ` fst ` set (subtrees (Elem ?n # up) cs)" and ne: "i \<noteq> t"
    using 1(3) by auto
  show ?case
  proof (cases "componentLike ?n")
    case True
    then have "closestId (Elem ?n # up) = Some i"
      by (simp add: closestId_Elem)
    from nothing_below_other_component(2) [OF this ne notin] 1(2) True show ?thesis by simp
  next
    case False
    then have "closestId (Elem ?n # up) = Some t"
      using 1(2) by (simp add: closestId_Elem)
    from 1(1) [OF this notin] 1(2) False show ?thesis by simp
  qed
next
  case (2 up)
  show ?case by simp
next
  case (3 up n ns)
  have "t \<notin> nid ` fst ` set (subtree up n)" "t \<notin> nid ` fst ` set (subtrees up ns)"
    using 3(4) by auto
  with 3(1) [OF 3(3)] 3(2) [OF 3(3)] show ?case by simp
qed

lemma foldl_setAdd:
  "distinct (map (\<lambda>x. nid (fst x)) (acc @ xs)) \<Longrightarrow>
   foldl (\<lambda>acc e. if \<not> P e then acc else setAdd e acc) acc xs = acc @ filter P xs"
proof (induction xs arbitrary: acc)
  case Nil
  show ?case by simp
next
  case (Cons x xs)
  show ?case
  proof (cases "P x")
    case False
    from Cons.prems have "distinct (map (\<lambda>x. nid (fst x)) (acc @ xs))" by simp
    from Cons.IH [OF this] False show ?thesis by simp
  next
    case True
    from Cons.prems have new: "nid (fst x) \<notin> set (map (\<lambda>x. nid (fst x)) acc)"
      and d: "distinct (map (\<lambda>x. nid (fst x)) ((acc @ [x]) @ xs))"
      by auto
    from new have "setAdd x acc = acc @ [x]" by (simp add: setAdd_def)
    with Cons.IH [OF d] True show ?thesis by simp
  qed
qed

lemma map_fst_filter_fst: "map fst (filter (\<lambda>e. P (fst e)) xs) = filter P (map fst xs)"
  by (induction xs) auto

lemma own_of_root:
  assumes "closestId up = Some t" and "t \<notin> nid ` fst ` set (subtrees up ns)"
  shows "map fst (filter (\<lambda>e. closestId (snd e) = Some t) (querySelectorAll P (up, ns)))
         = filter P (ownElementsAll ns)"
proof -
  have "filter (\<lambda>e. closestId (snd e) = Some t) (querySelectorAll P (up, ns))
        = filter (\<lambda>e. P (fst e)) (filter (\<lambda>e. closestId (snd e) = Some t) (subtrees up ns))"
    by (auto simp: querySelectorAll_def intro: filter_cong)
  then show ?thesis
    by (simp only: map_fst_filter_fst own_below_component(2) [OF assms])
qed

lemma closestId_thisPlace:
  "kind (element c) = ComponentInstance \<Longrightarrow> closestId (thisPlace c) = Some (nid (element c))"
  by (simp add: thisPlace_def closestId_Elem componentLike_def)

lemma refElements_own:
  assumes "wellFormed c"
  shows "map fst (refElements c) = filter (\<lambda>n. hasAttribute n ''ref'') (spec_ownElements c)"
proof -
  let ?t = "nid (element c)"
  let ?P = "\<lambda>n. hasAttribute n ''ref''"
  let ?D = "\<lambda>e. closestId (snd e) = Some ?t"
  let ?light = "subtrees (thisPlace c) (childNodes (element c))"
  let ?r1 = "(thisPlace c, childNodes (element c))"
  from assms have k: "kind (element c) = ComponentInstance"
    and d: "distinct (map nid (element c # spec_subtree c))"
    by (simp_all add: wellFormed_def)
  have light: "map fst (subtrees [] (childNodes (element c))) = map fst ?light"
    by (rule map_fst_subtree_place(2))
  have c1: "closestId (thisPlace c) = Some ?t"
    by (rule closestId_thisPlace [OF k])
  have c2: "closestId (ShadowRoot # thisPlace c) = Some ?t"
    by (simp add: closestId_ShadowRoot c1)
  have desc: "isDescendant c = ?D"
    by (rule ext) (simp add: isDescendant_closestId)
  show ?thesis
  proof (cases "shadowRoot (element c)")
    case None
    then have sc: "ownShadowContent c = []"
      by (simp add: ownShadowContent_def)
    from d have "distinct (map nid (element c # map fst ?light))"
      by (simp add: spec_subtree_def sc light)
    then have dd: "distinct (map (\<lambda>x. nid (fst x)) ([] @ querySelectorAll ?P ?r1))"
      and t: "?t \<notin> nid ` fst ` set ?light"
      by (auto simp: querySelectorAll_def comp_def distinct_map_filter)
    from None have "refElements c = foldl (\<lambda>acc e. if \<not> ?D e then acc else setAdd e acc) []
        (querySelectorAll ?P ?r1)"
      by (simp add: refElements_def roots_def desc)
    also have "\<dots> = filter ?D (querySelectorAll ?P ?r1)"
      using foldl_setAdd [OF dd, of ?D] by simp
    finally have "map fst (refElements c) = filter ?P (ownElementsAll (childNodes (element c)))"
      by (simp only: own_of_root [OF c1 t])
    then show ?thesis
      by (simp add: spec_ownElements_def sc)
  next
    case (Some content)
    then have sc: "ownShadowContent c = content"
      by (simp add: ownShadowContent_def)
    let ?shadow = "subtrees (ShadowRoot # thisPlace c) content"
    let ?r2 = "(ShadowRoot # thisPlace c, content)"
    have shadow: "map fst (subtrees [] content) = map fst ?shadow"
      by (rule map_fst_subtree_place(2))
    from d have dall: "distinct (map nid (element c # map fst ?light @ map fst ?shadow))"
      by (simp add: spec_subtree_def sc light shadow)
    then have t1: "?t \<notin> nid ` fst ` set ?light" and t2: "?t \<notin> nid ` fst ` set ?shadow"
      by auto
    have d1: "distinct (map (\<lambda>x. nid (fst x)) ([] @ querySelectorAll ?P ?r1))"
      using dall by (auto simp: querySelectorAll_def comp_def distinct_map_filter)
    have d2: "distinct (map (\<lambda>x. nid (fst x))
        (filter ?D (querySelectorAll ?P ?r1) @ querySelectorAll ?P ?r2))"
      using dall by (auto simp: querySelectorAll_def comp_def distinct_map_filter)
    from Some have "refElements c =
      foldl (\<lambda>acc e. if \<not> ?D e then acc else setAdd e acc)
        (foldl (\<lambda>acc e. if \<not> ?D e then acc else setAdd e acc) [] (querySelectorAll ?P ?r1))
        (querySelectorAll ?P ?r2)"
      by (simp add: refElements_def roots_def desc)
    also have "\<dots> = filter ?D (querySelectorAll ?P ?r1) @ filter ?D (querySelectorAll ?P ?r2)"
      using foldl_setAdd [OF d1, of ?D] foldl_setAdd [OF d2, of ?D] by simp
    finally have "map fst (refElements c)
        = filter ?P (ownElementsAll (childNodes (element c))) @ filter ?P (ownElementsAll content)"
      by (simp only: map_append own_of_root [OF c1 t1] own_of_root [OF c2 t2])
    then show ?thesis
      by (simp add: spec_ownElements_def sc)
  qed
qed

lemma mset_own_nested:
  "mset (map fst (subtree up n)) = mset (ownElements n) + mset (nestedElements n)"
  "mset (map fst (subtrees up ns)) = mset (ownElementsAll ns) + mset (nestedElementsAll ns)"
proof (induction up n and up ns rule: subtree_subtrees.induct)
  case (1 up i k t a s cs)
  have "map fst (subtrees (Elem (Node i k t a s cs) # up) cs) = map fst (subtrees [] cs)"
    by (rule map_fst_subtree_place(2))
  with 1 show ?case by simp
next
  case (2 up)
  show ?case by simp
next
  case (3 up n ns)
  then show ?case by simp
qed

lemma mset_subtree:
  "mset (spec_subtree c) = mset (spec_ownElements c) + mset (spec_nestedElements c)"
  using mset_own_nested(2) [of "[]" "childNodes (element c)"]
    mset_own_nested(2) [of "[]" "ownShadowContent c"]
  by (simp add: spec_subtree_def spec_ownElements_def spec_nestedElements_def)

lemma own_nested_disjoint:
  assumes "wellFormed c"
  shows "nid ` set (spec_ownElements c) \<inter> nid ` set (spec_nestedElements c) = {}"
proof -
  from assms have "distinct (map nid (spec_subtree c))"
    by (simp add: wellFormed_def)
  moreover have "mset (map nid (spec_subtree c))
      = mset (map nid (spec_ownElements c @ spec_nestedElements c))"
    by (simp add: mset_subtree)
  ultimately have "distinct (map nid (spec_ownElements c @ spec_nestedElements c))"
    by (metis mset_eq_imp_distinct_iff)
  then show ?thesis by auto
qed

text \<open>
  Claim C5, as amended. For a well-formed component, the elements the scan collects are
  exactly the ref-attributed elements, among the component's descendants and the
  descendants of its own shadow root, whose nearest enclosing component is the component
  itself: first those among its descendants, then those of its shadow root, each in tree
  order. No element nested inside a descendant component is collected, and every element
  of the two trees is of one kind or the other.
\<close>

theorem refs_stop_at_component_boundaries:
  assumes "wellFormed c"
  shows "map fst (refElements c) = filter (\<lambda>n. hasAttribute n ''ref'') (spec_ownElements c)
       \<and> nid ` fst ` set (refElements c) \<inter> nid ` set (spec_nestedElements c) = {}
       \<and> set (spec_ownElements c) \<union> set (spec_nestedElements c) = set (spec_subtree c)"
proof -
  have a: "map fst (refElements c) = filter (\<lambda>n. hasAttribute n ''ref'') (spec_ownElements c)"
    by (rule refElements_own [OF assms])
  then have "fst ` set (refElements c) \<subseteq> set (spec_ownElements c)"
    by (metis filter_is_subset set_map)
  with own_nested_disjoint [OF assms]
  have b: "nid ` fst ` set (refElements c) \<inter> nid ` set (spec_nestedElements c) = {}"
    by blast
  have c: "set (spec_ownElements c) \<union> set (spec_nestedElements c) = set (spec_subtree c)"
    by (metis mset_subtree set_mset_mset set_mset_union)
  from a b c show ?thesis by blast
qed

theorem refs_stop_at_component_boundaries_witness:
  "wellFormed outerComponent
   \<and> map (\<lambda>e. nid (fst e)) (refElements outerComponent) = [2, 5]
   \<and> map nid (spec_ownElements outerComponent) = [2, 3, 5, 6]
   \<and> map nid (spec_nestedElements outerComponent) = [4, 7]
   \<and> map nid (spec_subtree outerComponent) = [2, 3, 4, 5, 6, 7]"
proof -
  have wf: "wellFormed outerComponent"
    by code_simp
  have own: "map nid (filter (\<lambda>n. hasAttribute n ''ref'') (spec_ownElements outerComponent)) = [2, 5]"
    by code_simp
  from refs_stop_at_component_boundaries [OF wf] own
  have "map nid (map fst (refElements outerComponent)) = [2, 5]"
    by simp
  then have scan: "map (\<lambda>e. nid (fst e)) (refElements outerComponent) = [2, 5]"
    by (simp add: comp_def)
  have rest: "map nid (spec_ownElements outerComponent) = [2, 3, 5, 6]
      \<and> map nid (spec_nestedElements outerComponent) = [4, 7]
      \<and> map nid (spec_subtree outerComponent) = [2, 3, 4, 5, 6, 7]"
    by code_simp
  from wf scan rest show ?thesis by blast
qed

text \<open>
  Claim C5 as stated fails: the component \<open>listInside\<close> has a child \<open>overflow-list\<close>,
  which is not a component and has a shadow root of its own. The ref-attributed elements
  below the component whose nearest enclosing component is the component are element 3, in
  that shadow root, and element 4; the scan collects element 4 alone.
\<close>

theorem ref_in_nested_shadow_root_not_collected:
  "wellFormed listInside
   \<and> map (\<lambda>e. nid (fst e))
       (filter (\<lambda>e. hasAttribute (fst e) ''ref'' \<and> isDescendant listInside e)
          (spec_shadowIncludingSubtree listInside)) = [3, 4]
   \<and> map (\<lambda>e. nid (fst e)) (refElements listInside) = [4]"
  by code_simp

lemma currentArray_plain:
  "proto R = ObjectPrototype \<Longrightarrow> currentArray R path = Some (arrayAt path (own R))"
  by (simp add: currentArray_def arrayAt_def split: option.splits refval.splits)

lemma assign_plain:
  "proto R = ObjectPrototype \<Longrightarrow> path \<noteq> ''__proto__''
   \<Longrightarrow> assign R path v = Some (R\<lparr>own := AList.update path v (own R)\<rparr>)"
  by (simp add: assign_def)

lemma assignRef_plain:
  assumes "proto R = ObjectPrototype" and "refPath (fst e) \<noteq> ''__proto__''"
  shows "assignRef R e = Some (R\<lparr>own := storeRef (own R) (fst e)\<rparr>)"
proof (cases "isArrayRef (fst e)")
  case True
  with assms(2) have p: "take (length (refName (fst e)) - 2) (refName (fst e)) \<noteq> ''__proto__''"
    by (simp add: refPath_def)
  from True have "endsWith (refName (fst e)) ''[]''"
    by (simp add: isArrayRef_def)
  with True p assms(1) show ?thesis
    unfolding assignRef_def Let_def refName_def [symmetric]
    by (simp add: currentArray_plain assign_plain storeRef_def refPath_def)
next
  case False
  with assms(2) have p: "refName (fst e) \<noteq> ''__proto__''"
    by (simp add: refPath_def)
  from False have "\<not> endsWith (refName (fst e)) ''[]''"
    by (simp add: isArrayRef_def)
  with False p assms(1) show ?thesis
    unfolding assignRef_def Let_def refName_def [symmetric]
    by (simp add: assign_plain storeRef_def refPath_def)
qed

lemma collect_plain:
  assumes "''__proto__'' \<notin> refPath ` fst ` set es" and "proto R = ObjectPrototype"
  shows "foldl (\<lambda>R e. case R of None \<Rightarrow> None | Some r \<Rightarrow> assignRef r e) (Some R) es
         = Some (R\<lparr>own := foldl storeRef (own R) (map fst es)\<rparr>)"
  using assms
proof (induction es arbitrary: R)
  case Nil
  show ?case by simp
next
  case (Cons e es)
  from Cons.prems have p: "refPath (fst e) \<noteq> ''__proto__''"
    and rest: "''__proto__'' \<notin> refPath ` fst ` set es"
    by auto
  let ?R = "R\<lparr>own := storeRef (own R) (fst e)\<rparr>"
  have "proto ?R = ObjectPrototype"
    using Cons.prems(2) by simp
  from Cons.IH [OF rest this] assignRef_plain [OF Cons.prems(2) p]
  show ?case by simp
qed

lemma collectRefs_plain:
  "''__proto__'' \<notin> refPath ` fst ` set es
   \<Longrightarrow> collectRefs es = Some \<lparr>own = foldl storeRef [] (map fst es), proto = ObjectPrototype\<rparr>"
  using collect_plain [of es emptyObject] by (simp add: collectRefs_def emptyObject_def)

lemma keys_storeRef: "fst ` set (storeRef rs n) = insert (refPath n) (fst ` set rs)"
  by (simp add: storeRef_def dom_update)

lemma distinct_storeRef: "distinct (map fst rs) \<Longrightarrow> distinct (map fst (storeRef rs n))"
  by (simp add: storeRef_def distinct_update)

lemma keys_foldl_storeRef:
  "fst ` set (foldl storeRef rs ns) = fst ` set rs \<union> refPath ` set ns"
proof (induction ns arbitrary: rs)
  case Nil
  show ?case by simp
next
  case (Cons n ns)
  have "fst ` set (foldl storeRef (storeRef rs n) ns)
        = insert (refPath n) (fst ` set rs) \<union> refPath ` set ns"
    by (simp only: Cons.IH keys_storeRef)
  then show ?case by simp
qed

lemma distinct_foldl_storeRef:
  "distinct (map fst rs) \<Longrightarrow> distinct (map fst (foldl storeRef rs ns))"
  by (induction ns arbitrary: rs) (simp_all add: distinct_storeRef)

lemma value_foldl_storeRef:
  assumes "\<And>n. n \<in> set ns \<Longrightarrow> isArrayRef n \<Longrightarrow> refPath n = name"
    and "\<And>n. n \<in> set ns \<Longrightarrow> \<not> isArrayRef n \<Longrightarrow> refPath n \<noteq> name"
  shows "map_of (foldl storeRef rs ns) name =
     (if filter isArrayRef ns = [] then map_of rs name
      else Some (Many (arrayAt name rs @ filter isArrayRef ns)))"
  using assms
proof (induction ns arbitrary: rs)
  case Nil
  show ?case by simp
next
  case (Cons n ns)
  have IH: "map_of (foldl storeRef (storeRef rs n) ns) name =
     (if filter isArrayRef ns = [] then map_of (storeRef rs n) name
      else Some (Many (arrayAt name (storeRef rs n) @ filter isArrayRef ns)))"
    by (rule Cons.IH) (simp_all add: Cons.prems)
  show ?case
  proof (cases "isArrayRef n")
    case True
    with Cons.prems(1) [of n] have p: "refPath n = name" by simp
    from True p have "map_of (storeRef rs n) name = Some (Many (arrayAt name rs @ [n]))"
      by (simp add: storeRef_def update_conv')
    moreover from this have "arrayAt name (storeRef rs n) = arrayAt name rs @ [n]"
      by (simp add: arrayAt_def)
    ultimately show ?thesis using IH True by simp
  next
    case False
    with Cons.prems(2) [of n] have p: "refPath n \<noteq> name" by simp
    from False p have "map_of (storeRef rs n) name = map_of rs name"
      by (simp add: storeRef_def update_conv')
    moreover from this have "arrayAt name (storeRef rs n) = arrayAt name rs"
      by (simp add: arrayAt_def)
    ultimately show ?thesis using IH False by simp
  qed
qed

lemma updateRefs_Completed:
  "updateRefs c = Completed c' \<Longrightarrow> collectRefs (refElements c) = Some (refs c')"
  by (auto simp: updateRefs_def split: option.splits)

lemma stored_keys_and_list:
  assumes uniq: "distinct (map refName (filter (\<lambda>n. \<not> isArrayRef n) ns))"
    and shared: "list_all (\<lambda>n. refName n = name @ ''[]'') (filter isArrayRef ns)"
    and fresh: "name \<notin> set (map refName (filter (\<lambda>n. \<not> isArrayRef n) ns))"
    and some: "filter isArrayRef ns \<noteq> []"
  shows "length (foldl storeRef [] ns) = length (filter (\<lambda>n. \<not> isArrayRef n) ns) + 1
       \<and> distinct (map fst (foldl storeRef [] ns))
       \<and> map_of (foldl storeRef [] ns) name = Some (Many (filter isArrayRef ns))"
proof -
  let ?singles = "filter (\<lambda>n. \<not> isArrayRef n) ns"
  let ?plurals = "filter isArrayRef ns"
  let ?rs = "foldl storeRef [] ns"
  have plural_path: "refPath n = name" if "n \<in> set ?plurals" for n
  proof -
    from that shared have "refName n = name @ ''[]''"
      by (simp add: list_all_iff)
    moreover from that have "isArrayRef n" by simp
    ultimately show ?thesis by (simp add: refPath_def)
  qed
  have single_path: "refPath n = refName n" if "n \<in> set ?singles" for n
    using that by (simp add: refPath_def)
  have single_ne: "refPath n \<noteq> name" if "n \<in> set ?singles" for n
    using that fresh single_path [OF that] by auto
  have d: "distinct (map fst ?rs)"
    by (rule distinct_foldl_storeRef) simp
  have "map_of ?rs name =
     (if ?plurals = [] then map_of [] name else Some (Many (arrayAt name [] @ ?plurals)))"
    by (rule value_foldl_storeRef) (use plural_path single_ne in auto)
  with some have v: "map_of ?rs name = Some (Many ?plurals)"
    by (simp add: arrayAt_def)
  have "fst ` set ?rs = refPath ` set ns"
    by (simp add: keys_foldl_storeRef)
  also have "set ns = set ?singles \<union> set ?plurals"
    by auto
  also have "refPath ` (set ?singles \<union> set ?plurals) = refName ` set ?singles \<union> refPath ` set ?plurals"
    using single_path by (auto simp: image_Un)
  also have "refPath ` set ?plurals = {name}"
  proof -
    from some obtain n where "n \<in> set ?plurals"
      by (cases ?plurals) auto
    with plural_path show ?thesis by (auto simp: image_iff)
  qed
  finally have keys: "fst ` set ?rs = insert name (refName ` set ?singles)"
    by simp
  have "length ?rs = card (set (map fst ?rs))"
    using distinct_card [OF d] by simp
  also have "\<dots> = card (insert name (set (map refName ?singles)))"
    using keys by simp
  also have "\<dots> = Suc (card (set (map refName ?singles)))"
    using fresh by simp
  also have "card (set (map refName ?singles)) = length ?singles"
    using uniq by (metis distinct_card length_map)
  finally have "length ?rs = length ?singles + 1" by simp
  with d v show ?thesis by blast
qed

text \<open>
  Claim C4, as amended. Among the elements a well-formed component collects, none under
  the name \<open>__proto__\<close>, N carry pairwise different non-pluralised ref names and M carry
  one shared pluralised name \<open>name[]\<close>, where M is at least 1 and \<open>name\<close> is none of the N
  names. Then the refs object built by the scan keeps \<open>Object.prototype\<close> as prototype
  and has exactly N + 1 own keys, and the key \<open>name\<close> holds the list of exactly those M
  elements: those among the component's descendants in tree order, followed by those of
  its shadow root in tree order.
\<close>

theorem refs_keys_and_shared_list:
  assumes "wellFormed c"
    and "updateRefs c = Completed c'"
    and "''__proto__'' \<notin> set (map refPath (map fst (refElements c)))"
    and "distinct (map refName (filter (\<lambda>n. \<not> isArrayRef n) (map fst (refElements c))))"
    and "list_all (\<lambda>n. refName n = name @ ''[]'') (filter isArrayRef (map fst (refElements c)))"
    and "name \<notin> set (map refName (filter (\<lambda>n. \<not> isArrayRef n) (map fst (refElements c))))"
    and "filter isArrayRef (map fst (refElements c)) \<noteq> []"
  shows "proto (refs c') = ObjectPrototype
       \<and> length (own (refs c')) = length (filter (\<lambda>n. \<not> isArrayRef n) (map fst (refElements c))) + 1
       \<and> distinct (map fst (own (refs c')))
       \<and> map_of (own (refs c')) name = Some (Many (filter isArrayRef (map fst (refElements c))))
       \<and> filter isArrayRef (map fst (refElements c))
           = filter (\<lambda>n. hasAttribute n ''ref'' \<and> isArrayRef n) (ownElementsAll (childNodes (element c)))
             @ filter (\<lambda>n. hasAttribute n ''ref'' \<and> isArrayRef n) (ownElementsAll (ownShadowContent c))"
proof -
  have order: "filter isArrayRef (map fst (refElements c))
        = filter (\<lambda>n. hasAttribute n ''ref'' \<and> isArrayRef n) (ownElementsAll (childNodes (element c)))
          @ filter (\<lambda>n. hasAttribute n ''ref'' \<and> isArrayRef n) (ownElementsAll (ownShadowContent c))"
    by (simp add: refElements_own [OF assms(1)] spec_ownElements_def conj_commute)
  from assms(3) have "''__proto__'' \<notin> refPath ` fst ` set (refElements c)"
    by (simp add: image_image)
  from collectRefs_plain [OF this] updateRefs_Completed [OF assms(2)]
  have r: "refs c' = \<lparr>own = foldl storeRef [] (map fst (refElements c)), proto = ObjectPrototype\<rparr>"
    by simp
  from stored_keys_and_list [OF assms(4-7)] order show ?thesis
    by (simp add: r)
qed

theorem refs_keys_and_shared_list_witness:
  "wellFormed menuComponent
   \<and> map refName (map fst (refElements menuComponent))
       = [''items[]'', ''title'', ''items[]'', ''more'', ''items[]'']
   \<and> (\<exists>c'. updateRefs menuComponent = Completed c'
        \<and> length (own (refs c')) = 2 + 1
        \<and> map (map_option (\<lambda>v. case v of Single n \<Rightarrow> [nid n] | Many ns \<Rightarrow> map nid ns))
              (map (map_of (own (refs c'))) [''items'', ''title'', ''more''])
            = [Some [2, 4, 6], Some [3], Some [5]])
   \<and> map nid (filter (\<lambda>n. hasAttribute n ''ref'' \<and> isArrayRef n)
        (ownElementsAll (childNodes (element menuComponent)))) = [2, 4]
   \<and> map nid (filter (\<lambda>n. hasAttribute n ''ref'' \<and> isArrayRef n)
        (ownElementsAll (ownShadowContent menuComponent))) = [6]"
proof -
  let ?els = "map fst (refElements menuComponent)"
  let ?R = "\<lparr>own = [(''items'', Many [Node 2 HtmlElement ''LI'' [(''ref'', ''items[]'')] None [],
                                          Node 4 HtmlElement ''LI'' [(''ref'', ''items[]'')] None [],
                                          Node 6 HtmlElement ''LI'' [(''ref'', ''items[]'')] None []]),
                        (''title'', Single (Node 3 HtmlElement ''SPAN'' [(''ref'', ''title'')] None [])),
                        (''more'', Single (Node 5 HtmlElement ''BUTTON'' [(''ref'', ''more'')] None []))],
                 proto = ObjectPrototype\<rparr>"
  have R: "collectRefs (refElements menuComponent) = Some ?R"
    by code_simp
  have others: "map (map_option (\<lambda>v. case v of Single n \<Rightarrow> [nid n] | Many ns \<Rightarrow> map nid ns))
              (map (map_of (own ?R)) [''title'', ''more'']) = [Some [3], Some [5]]"
    by code_simp
  let ?c' = "menuComponent\<lparr>refs := ?R\<rparr>"
  have wf: "wellFormed menuComponent"
    by code_simp
  have req: "requiredRefs menuComponent = None"
    by (simp add: menuComponent_def)
  have up: "updateRefs menuComponent = Completed ?c'"
    by (simp add: updateRefs_def R req)
  have names: "map refName ?els = [''items[]'', ''title'', ''items[]'', ''more'', ''items[]'']"
    by code_simp
  have paths: "map refPath ?els = [''items'', ''title'', ''items'', ''more'', ''items'']"
    by code_simp
  have singles: "map refName (filter (\<lambda>n. \<not> isArrayRef n) ?els) = [''title'', ''more'']"
    by code_simp
  have plurals: "map nid (filter isArrayRef ?els) = [2, 4, 6]"
    and plural_names: "map refName (filter isArrayRef ?els) = [''items[]'', ''items[]'', ''items[]'']"
    by code_simp+
  have light: "map nid (filter (\<lambda>n. hasAttribute n ''ref'' \<and> isArrayRef n)
        (ownElementsAll (childNodes (element menuComponent)))) = [2, 4]"
    and shadow: "map nid (filter (\<lambda>n. hasAttribute n ''ref'' \<and> isArrayRef n)
        (ownElementsAll (ownShadowContent menuComponent))) = [6]"
    by code_simp+
  have h0: "''__proto__'' \<notin> set (map refPath ?els)"
    unfolding paths by simp
  have h1: "distinct (map refName (filter (\<lambda>n. \<not> isArrayRef n) ?els))"
    by (simp add: singles)
  have "list_all (\<lambda>x. x = ''items'' @ ''[]'') (map refName (filter isArrayRef ?els))"
    by (simp add: plural_names)
  then have h2: "list_all (\<lambda>n. refName n = ''items'' @ ''[]'') (filter isArrayRef ?els)"
    by (simp add: list_all_iff)
  have h3: "''items'' \<notin> set (map refName (filter (\<lambda>n. \<not> isArrayRef n) ?els))"
    by (simp add: singles)
  have h4: "filter isArrayRef ?els \<noteq> []"
    using plurals by auto
  have n: "length (filter (\<lambda>n. \<not> isArrayRef n) ?els) = 2"
    using singles by (metis length_map length_Cons list.size(3) numeral_2_eq_2)
  from refs_keys_and_shared_list [OF wf up h0 h1 h2 h3 h4] n plurals
  have "length (own (refs ?c')) = 2 + 1
      \<and> map_option (\<lambda>v. case v of Single n \<Rightarrow> [nid n] | Many ns \<Rightarrow> map nid ns)
           (map_of (own (refs ?c')) ''items'') = Some [2, 4, 6]"
    by simp
  with others up have "\<exists>c'. updateRefs menuComponent = Completed c'
        \<and> length (own (refs c')) = 2 + 1
        \<and> map (map_option (\<lambda>v. case v of Single n \<Rightarrow> [nid n] | Many ns \<Rightarrow> map nid ns))
              (map (map_of (own (refs c'))) [''items'', ''title'', ''more''])
            = [Some [2, 4, 6], Some [3], Some [5]]"
    by (intro exI [of _ ?c']) simp
  with wf names light shadow show ?thesis by blast
qed

text \<open>
  Claim C4 as stated fails, twice. In \<open>collidingNames\<close> one element carries the unique
  name \<open>items\<close> and two carry the shared pluralised name \<open>items[]\<close> (N = 1, M = 2): both
  names use the key \<open>items\<close>, and the refs object ends with one key, holding a list of
  one element. In \<open>protoName\<close> the unique names are \<open>title\<close> and \<open>__proto__\<close> and two
  elements share \<open>items[]\<close> (N = 2, M = 2): the write to \<open>__proto__\<close> replaces the
  prototype of the refs object, which ends with the two keys \<open>title\<close> and \<open>items\<close>.
\<close>

theorem shared_name_collides_with_unique_name:
  "map refName (map fst (refElements collidingNames)) = [''items[]'', ''items'', ''items[]'']
   \<and> updateRefs collidingNames
       = Completed (collidingNames\<lparr>refs :=
           \<lparr>own = [(''items'', Many [Node 4 HtmlElement ''LI'' [(''ref'', ''items[]'')] None []])],
            proto = ObjectPrototype\<rparr>\<rparr>)
   \<and> map refName (map fst (refElements protoName)) = [''title'', ''items[]'', ''items[]'', ''__proto__'']
   \<and> updateRefs protoName
       = Completed (protoName\<lparr>refs :=
           \<lparr>own = [(''title'', Single (Node 2 HtmlElement ''SPAN'' [(''ref'', ''title'')] None [])),
                   (''items'', Many [Node 3 HtmlElement ''LI'' [(''ref'', ''items[]'')] None [],
                                     Node 4 HtmlElement ''LI'' [(''ref'', ''items[]'')] None []])],
            proto = Installed (Single (Node 5 HtmlElement ''DIV'' [(''ref'', ''__proto__'')] None []))\<rparr>\<rparr>)"
  by code_simp

lemma hasProperty_plain:
  "proto R = ObjectPrototype
   \<Longrightarrow> hasProperty R name = Some (name \<in> fst ` set (own R) \<or> name \<in> set objectPrototypeKeys)"
  by (auto simp: hasProperty_def map_of_eq_None_iff)

lemma missingRef_plain:
  assumes "proto R = ObjectPrototype"
  shows "missingRef R required
         = Some (find (\<lambda>r. r \<notin> fst ` set (own R) \<and> r \<notin> set objectPrototypeKeys) required)"
  by (induction required) (simp_all add: hasProperty_plain [OF assms])

lemma tagName_hydrate: "tagName (hydrate clone n) = tagName n"
  by (simp add: hydrate_def split: option.splits)

lemma shadowRoot_hydrate:
  "shadowRoot (hydrate clone n) = (case shadowRoot n of None \<Rightarrow> clone | Some content \<Rightarrow> Some content)"
  by (simp add: hydrate_def split: option.splits)

text \<open>
  Claim C3, as amended. A component has a list of required refs, and no element it
  collects is named \<open>__proto__\<close>. One of the required names is carried by no collected
  element and is not a property every object inherits from \<open>Object.prototype\<close>. Then
  \<open>connectedCallback\<close> throws a \<open>MissingRefError\<close> that carries such a required name and
  the component's lowercased tag. At the throw the refs object has not been replaced and no
  idle callback (which would start the mutation observer) has been requested; the
  component has the shadow root it had, or else the clone of its template, and
  \<open>registerEventListeners\<close> has run.
\<close>

theorem missing_required_ref_throws:
  assumes "requiredRefs c = Some required"
    and "c1 = c\<lparr>element := hydrate clone (element c)\<rparr>"
    and "''__proto__'' \<notin> set (map refPath (map fst (refElements c1)))"
    and "ref \<in> set required"
    and "ref \<notin> set (map refPath (map fst (refElements c1)))"
    and "ref \<notin> set objectPrototypeKeys"
  shows "\<exists>missing. missing \<in> set required
           \<and> missing \<notin> set (map refPath (map fst (refElements c1)))
           \<and> missing \<notin> set objectPrototypeKeys
           \<and> connectedCallback clone (p, c)
               = Threw (MissingRefError missing (toLowerCase (tagName (element c))))
                   (registerEventListeners p, c1)
           \<and> refs c1 = refs c \<and> idleCallbacks c1 = idleCallbacks c
           \<and> shadowRoot (element c1)
               = (case shadowRoot (element c) of None \<Rightarrow> clone | Some content \<Rightarrow> Some content)"
proof -
  let ?R = "\<lparr>own = foldl storeRef [] (map fst (refElements c1)), proto = ObjectPrototype\<rparr>"
  let ?stored = "foldl storeRef [] (map fst (refElements c1))"
  let ?absent = "\<lambda>r. r \<notin> fst ` set ?stored \<and> r \<notin> set objectPrototypeKeys"
  have keys: "fst ` set ?stored = set (map refPath (map fst (refElements c1)))"
    by (simp add: keys_foldl_storeRef image_image)
  from assms(3) have "''__proto__'' \<notin> refPath ` fst ` set (refElements c1)"
    by (simp add: image_image)
  then have collected: "collectRefs (refElements c1) = Some ?R"
    by (rule collectRefs_plain)
  have checked: "missingRef ?R required = Some (find ?absent required)"
    using missingRef_plain [of ?R required] by simp
  from assms(4-6) have "?absent ref"
    unfolding keys by simp
  with assms(4) have "find ?absent required \<noteq> None"
    by (auto simp: find_None_iff)
  then obtain missing where f: "find ?absent required = Some missing"
    by blast
  then have m: "missing \<in> set required" "?absent missing"
    by (auto simp: find_Some_iff)
  have req: "requiredRefs c1 = Some required" and tag: "tagName (element c1) = tagName (element c)"
    using assms(1) by (simp_all add: assms(2) tagName_hydrate)
  have "updateRefs c1 = Threw (MissingRefError missing (toLowerCase (tagName (element c)))) c1"
    by (simp add: updateRefs_def collected req checked f tag)
  then have thrown: "connectedCallback clone (p, c)
        = Threw (MissingRefError missing (toLowerCase (tagName (element c))))
            (registerEventListeners p, c1)"
    by (simp add: connectedCallback_def Let_def assms(2) [symmetric])
  have kept: "refs c1 = refs c \<and> idleCallbacks c1 = idleCallbacks c
      \<and> shadowRoot (element c1)
          = (case shadowRoot (element c) of None \<Rightarrow> clone | Some content \<Rightarrow> Some content)"
    by (simp add: assms(2) shadowRoot_hydrate)
  from m(2) have "missing \<notin> set (map refPath (map fst (refElements c1)))
      \<and> missing \<notin> set objectPrototypeKeys"
    unfolding keys by simp
  with m(1) thrown kept show ?thesis by blast
qed

theorem missing_required_ref_throws_witness:
  "requiredRefs cartDrawer = Some [''close'', ''dialog'']
   \<and> shadowRoot (element cartDrawer) = None
   \<and> map refPath (map fst (refElements
        (cartDrawer\<lparr>element := hydrate (Some cartDrawerTemplate) (element cartDrawer)\<rparr>))) = [''close'']
   \<and> connectedCallback (Some cartDrawerTemplate) (freshPage, cartDrawer)
       = Threw (MissingRefError ''dialog'' ''cart-drawer'')
           (registerEventListeners freshPage,
            cartDrawer\<lparr>element := hydrate (Some cartDrawerTemplate) (element cartDrawer)\<rparr>)
   \<and> shadowRoot (hydrate (Some cartDrawerTemplate) (element cartDrawer)) = Some cartDrawerTemplate
   \<and> message (MissingRefError ''dialog'' ''cart-drawer'')
       = ''Required ref \"dialog\" not found in component cart-drawer''"
proof -
  let ?c1 = "cartDrawer\<lparr>element := hydrate (Some cartDrawerTemplate) (element cartDrawer)\<rparr>"
  have r: "requiredRefs cartDrawer = Some [''close'', ''dialog'']"
    by (simp add: cartDrawer_def)
  have s: "shadowRoot (element cartDrawer) = None"
    by (simp add: cartDrawer_def)
  have paths: "map refPath (map fst (refElements ?c1)) = [''close'']"
    by code_simp
  have h3: "''__proto__'' \<notin> set (map refPath (map fst (refElements ?c1)))"
    unfolding paths by simp
  have h5: "''dialog'' \<notin> set (map refPath (map fst (refElements ?c1)))"
    unfolding paths by simp
  have h6: "''dialog'' \<notin> set objectPrototypeKeys"
    by (simp add: objectPrototypeKeys_def)
  have tag: "toLowerCase (tagName (element cartDrawer)) = ''cart-drawer''"
    by code_simp
  from missing_required_ref_throws [OF r refl h3 _ h5 h6, of freshPage]
  obtain missing where m: "missing \<in> set [''close'', ''dialog'']"
    "missing \<notin> set (map refPath (map fst (refElements ?c1)))"
    "connectedCallback (Some cartDrawerTemplate) (freshPage, cartDrawer)
       = Threw (MissingRefError missing (toLowerCase (tagName (element cartDrawer))))
           (registerEventListeners freshPage, ?c1)"
    "shadowRoot (element ?c1)
       = (case shadowRoot (element cartDrawer) of None \<Rightarrow> Some cartDrawerTemplate
          | Some content \<Rightarrow> Some content)"
    by auto
  from m(1,2) have "missing = ''dialog''"
    unfolding paths by auto
  with m(3,4) tag r s paths show ?thesis by simp
qed

text \<open>
  Claim C3 as stated fails, in three ways. On a page without listeners the cart drawer
  connects and lacks its required ref \<open>dialog\<close>: when the error is thrown the registry is
  already initialised and holds its twelve listeners, and the shadow root is attached. A
  component that requires \<open>toString\<close> and has no ref at all connects without an error,
  because every object inherits \<open>toString\<close>. A component that requires \<open>length\<close> and
  whose only ref is named \<^verbatim>\<open>__proto__[]\<close> connects without an error and without any own
  key in its refs object: the list has become the prototype of the refs object, and a list
  has a \<open>length\<close>.
\<close>

theorem listeners_registered_before_the_throw:
  "connectedCallback (Some cartDrawerTemplate) (freshPage, cartDrawer)
     = Threw (MissingRefError ''dialog'' ''cart-drawer'')
         (registerEventListeners freshPage,
          cartDrawer\<lparr>element := hydrate (Some cartDrawerTemplate) (element cartDrawer)\<rparr>)
   \<and> \<not> initialized freshPage \<and> listeners freshPage = []
   \<and> initialized (registerEventListeners freshPage)
   \<and> length (listeners (registerEventListeners freshPage)) = 12
   \<and> shadowRoot (element cartDrawer) = None
   \<and> shadowRoot (hydrate (Some cartDrawerTemplate) (element cartDrawer)) = Some cartDrawerTemplate
   \<and> requiredRefs requiresToString = Some [''toString'']
   \<and> refElements requiresToString = []
   \<and> connectedCallback None (freshPage, requiresToString)
       = Completed (registerEventListeners freshPage, requiresToString\<lparr>idleCallbacks := 1\<rparr>)
   \<and> requiredRefs requiresLength = Some [''length'']
   \<and> map refName (map fst (refElements requiresLength)) = [''__proto__[]'']
   \<and> connectedCallback None (freshPage, requiresLength)
       = Completed (registerEventListeners freshPage,
           requiresLength\<lparr>refs := \<lparr>own = [], proto = Installed (Many (map fst (refElements requiresLength)))\<rparr>,
                           idleCallbacks := 1\<rparr>)"
  by code_simp

end
